theory Spec2Isabelle
  imports Main
begin

section \<open>ResourcePool: the ClickHouse connection pool (src/lib/clickhouse.ts)\<close>

text \<open>
  Times are milliseconds as JavaScript numbers hold them (\<open>Date.now()\<close>), modelled as
  \<open>int\<close>. \<open>PoolConfig\<close> follows the interface of the same name; its fields \<open>min\<close> and
  \<open>max\<close> are called \<open>pool_min\<close> and \<open>pool_max\<close> here, since \<open>min\<close> and \<open>max\<close> are
  constants of HOL.
\<close>

record PoolConfig =
  pool_min :: int
  pool_max :: int
  acquireTimeoutMillis :: int
  createTimeoutMillis :: int
  idleTimeoutMillis :: int
  reapIntervalMillis :: int

text \<open>
  A \<open>PoolClient\<close> is a mutable object of the \<open>clients\<close> array. \<open>clientId\<close> stands for
  the object's identity; \<open>lastUsed\<close> and \<open>isIdle\<close> are the two bookkeeping fields the
  pool adds to the backend client.
\<close>

record PoolClient =
  clientId :: nat
  lastUsed :: int
  isIdle :: bool

text \<open>The default argument of the constructor of \<open>ClickHousePool\<close>.\<close>

definition defaultConfig :: PoolConfig where
  "defaultConfig =
     \<lparr>pool_min = 2, pool_max = 10, acquireTimeoutMillis = 30000,
      createTimeoutMillis = 30000, idleTimeoutMillis = 30000, reapIntervalMillis = 1000\<rparr>"

text \<open>
  \<open>reapIdleConnections\<close>: one pass of the reaper at time \<open>now\<close>. The source filters
  \<open>this.clients\<close> and assigns the result back only when the filter has finished, so
  \<open>this.clients.length\<close> inside the callback is the length before the pass, for every
  element. The callback closes the clients it drops; the model returns the clients kept
  and the clients closed.
\<close>

definition reapIdleConnections ::
  "PoolConfig \<Rightarrow> int \<Rightarrow> PoolClient list \<Rightarrow> PoolClient list \<times> PoolClient list" where
  "reapIdleConnections config now clients =
     (let minClients = pool_min config;
          reaped = (\<lambda>client.
            let idle = now - lastUsed client > idleTimeoutMillis config
            in idle \<and> int (length clients) > minClients)
      in (filter (\<lambda>client. \<not> reaped client) clients, filter reaped clients))"

text \<open>
  \<open>createClient\<close> pushes a new client, idle and stamped with the current time; the new
  object's identity is a number no client of the array has.
\<close>

definition createClient :: "int \<Rightarrow> PoolClient list \<Rightarrow> PoolClient \<times> PoolClient list" where
  "createClient now clients =
     (let client = \<lparr>clientId = Suc (fold max (map clientId clients) 0), lastUsed = now,
                     isIdle = True\<rparr>
      in (client, clients @ [client]))"

text \<open>
  The wait of \<open>acquire\<close>. The promise arms one timer that rejects after
  \<open>acquireTimeoutMillis\<close> and calls \<open>checkForIdleClient\<close> at once; a check that finds no
  idle client arms a timer of 100 ms for the next check. Other operations release and
  acquire clients while this one waits: \<open>clientsAt t\<close> is the \<open>clients\<close> array as it
  stands \<open>t\<close> milliseconds after the call. Timers fire at their nominal times; where the
  rejecting timer and a check fall on the same millisecond the rejecting timer, armed
  first, fires first. The function returns the time at which the promise settles and
  its outcome. It terminates: each check is 100 ms later than the one before and none
  runs at or after the timeout.

  \<open>timerDelay\<close> is the delay Node's \<open>setTimeout\<close> uses for a requested delay: 1 ms
  when the request is below 1 or above \<open>2^31 - 1\<close>.
\<close>

datatype pool_error = TimeoutAcquiringClient

definition timerDelay :: "int \<Rightarrow> int" where
  "timerDelay ms = (if ms < 1 \<or> ms > 2147483647 then 1 else ms)"

function checkForIdleClient ::
  "(int \<Rightarrow> PoolClient list) \<Rightarrow> int \<Rightarrow> int \<Rightarrow> int \<times> (pool_error + PoolClient)" where
  "checkForIdleClient clientsAt timeout t =
     (case find isIdle (clientsAt t) of
        Some idleClient \<Rightarrow> (t, Inr idleClient)
      | None \<Rightarrow>
          if t + 100 < timeout then checkForIdleClient clientsAt timeout (t + 100)
          else (timeout, Inl TimeoutAcquiringClient))"
  by pat_completeness auto
termination
  by (relation "measure (\<lambda>(clientsAt, timeout, t). nat (timeout - t))") auto

declare checkForIdleClient.simps [simp del]

text \<open>
  \<open>acquire\<close>, called at time \<open>now\<close>: an idle client if the array has one, else a new
  client if the array is below \<open>max\<close>, else the wait. The client it returns is marked
  busy and stamped with the time of the return; \<open>storeClient\<close> writes the changed object
  back into the array. The result is the time the call took, and the error or the client
  with the array after the call.
\<close>

definition markBusy :: "int \<Rightarrow> PoolClient \<Rightarrow> PoolClient" where
  "markBusy now client = client\<lparr>isIdle := False, lastUsed := now\<rparr>"

definition storeClient :: "PoolClient \<Rightarrow> PoolClient list \<Rightarrow> PoolClient list" where
  "storeClient client clients =
     map (\<lambda>c. if clientId c = clientId client then client else c) clients"

definition acquire ::
  "PoolConfig \<Rightarrow> int \<Rightarrow> (int \<Rightarrow> PoolClient list) \<Rightarrow>
     int \<times> (pool_error + PoolClient \<times> PoolClient list)" where
  "acquire config now clientsAt =
     (let clients = clientsAt 0 in
      case find isIdle clients of
        Some client \<Rightarrow>
          (0, Inr (markBusy now client, storeClient (markBusy now client) clients))
      | None \<Rightarrow>
          if int (length clients) < pool_max config then
            (case createClient now clients of
               (client, clients') \<Rightarrow>
                 (0, Inr (markBusy now client, storeClient (markBusy now client) clients')))
          else
            (case checkForIdleClient clientsAt (timerDelay (acquireTimeoutMillis config)) 0 of
               (t, Inl e) \<Rightarrow> (t, Inl e)
             | (t, Inr client) \<Rightarrow>
                 (t, Inr (markBusy (now + t) client,
                          storeClient (markBusy (now + t) client) (clientsAt t)))))"

section \<open>findUnique and findFirst (src/lib/clickhouse.ts)\<close>

text \<open>
  \<open>data\<close> is the array of rows of a result set (\<open>resultSet.json()\<close>), so its elements
  are JSON objects, never \<open>undefined\<close>. \<open>data[0] ?? null\<close> is the first row, or \<open>null\<close>
  (here \<open>None\<close>) when the array is empty. \<open>findUnique\<close> throws the string
  \<open>`${data.length} records found when expecting 1.`\<close>; the error value carries the
  number that the string shows.
\<close>

datatype find_error = RecordsFound nat

definition findFirst :: "'a list \<Rightarrow> 'a option" where
  "findFirst data = (case data of [] \<Rightarrow> None | x # _ \<Rightarrow> Some x)"

definition findUnique :: "'a list \<Rightarrow> find_error + 'a option" where
  "findUnique data =
     (if length data > 1 then Inl (RecordsFound (length data)) else Inr (findFirst data))"

section \<open>The data model: websites, sessions, events and rollups\<close>

text \<open>
  The rows of the relational store as the code reads and writes them through Prisma,
  with the columns the modelled functions use. Dates are \<open>Date\<close> values, modelled as
  milliseconds since the epoch (\<open>int\<close>); a nullable column is an \<open>option\<close>.
  \<open>EVENT_TYPE\<close> and the period are enumerations. Fields that would share a name across
  records carry the record's name as a prefix.
\<close>

datatype EVENT_TYPE = pageView | customEvent

datatype aggregation_period = daily | weekly | monthly

record Website =
  website_id :: string
  website_name :: string
  domain :: string
  resetAt :: "int option"
  deletedAt :: "int option"

text \<open>
  \<open>WebsiteStats\<close> is the table \<open>website_stats\<close> of the migration: the key
  \<open>(website_id, start_date, period)\<close> is unique, \<open>bounces\<close> and \<open>total_duration\<close>
  default to 0. The columns \<open>stats_id\<close>, \<open>created_at\<close> and \<open>updated_at\<close>, which the
  database fills in by a default and a trigger and which the code neither writes nor
  reads, are not part of the row here. \<open>urlData\<close> and \<open>referrerData\<close> are JSON objects,
  kept as lists of key and count.
\<close>

record WebsiteStats =
  stats_websiteId :: string
  stats_startDate :: int
  stats_endDate :: int
  stats_period :: aggregation_period
  stats_pageviews :: int
  stats_sessions :: int
  stats_bounces :: int
  stats_totalDuration :: int
  stats_uniqueVisitors :: int
  stats_desktopViews :: int
  stats_mobileViews :: int
  stats_tabletViews :: int
  stats_urlData :: "(string \<times> int) list"
  stats_referrerData :: "(string \<times> int) list"

record Session =
  session_id :: string
  session_websiteId :: string
  session_createdAt :: int
  device :: "string option"

record WebsiteEvent =
  event_id :: string
  event_websiteId :: string
  event_sessionId :: string
  event_createdAt :: int
  event_urlPath :: string
  event_referrerDomain :: "string option"
  event_type :: EVENT_TYPE

text \<open>
  The store: one list of rows per table (\<open>prisma.website\<close>, \<open>prisma.session\<close>,
  \<open>prisma.websiteEvent\<close>, \<open>prisma.websiteStats\<close>).
\<close>

record Database =
  db_website :: "Website list"
  db_session :: "Session list"
  db_websiteEvent :: "WebsiteEvent list"
  db_websiteStats :: "WebsiteStats list"

text \<open>
  \<open>findWebsite\<close> and \<open>getWebsite\<close> (src/queries/prisma/website.ts):
  \<open>website.findUnique\<close> with the criterion \<open>where: { id: websiteId }\<close>, so the website
  row of that id, or \<open>null\<close>. The criterion of \<open>findWebsite\<close> is a predicate on rows.
\<close>

definition findWebsite :: "Database \<Rightarrow> (Website \<Rightarrow> bool) \<Rightarrow> Website option" where
  "findWebsite db criteria = find criteria (db_website db)"

definition getWebsite :: "Database \<Rightarrow> string \<Rightarrow> Website option" where
  "getWebsite db websiteId = findWebsite db (\<lambda>w. website_id w = websiteId)"

text \<open>
  \<open>startOfDay\<close>, \<open>endOfDay\<close> and \<open>subDays\<close> are those of date-fns, for a process whose
  local time zone is UTC: a day is 86400000 ms and ends at its last millisecond.
\<close>

definition startOfDay :: "int \<Rightarrow> int" where
  "startOfDay t = t - t mod 86400000"

definition endOfDay :: "int \<Rightarrow> int" where
  "endOfDay t = startOfDay t + 86399999"

definition subDays :: "int \<Rightarrow> int \<Rightarrow> int" where
  "subDays date amount = date - amount * 86400000"

text \<open>
  The start and end date of a request. \<open>getPageviewStats\<close> reads them as strings
  (\<open>parseISO(startDate as unknown as string)\<close>), \<open>parseFilters\<close> hands the start date
  to \<open>maxDate\<close> as a date: the value is the text of a date or a \<open>Date\<close> object.
  \<open>parseISO\<close> is that of date-fns: for an argument that is not a string it returns
  \<open>Invalid Date\<close>, here \<open>None\<close>; for a string, the instant the text denotes, if it
  denotes one. The reading of the text is the library's and is a parameter,
  \<open>isoInstant\<close>.
\<close>

datatype date_value = DateObject int | DateString string

definition parseISO :: "(string \<Rightarrow> int option) \<Rightarrow> date_value \<Rightarrow> int option" where
  "parseISO isoInstant argument =
     (case argument of DateObject _ \<Rightarrow> None | DateString s \<Rightarrow> isoInstant s)"

text \<open>
  Modelled from the spec: \<open>maxDate\<close> (lib/date) is not among the sources. The spec
  says that the effective start date is the maximum of the requested start date and the
  reset timestamp of the website; the requested start date is the instant the value
  stands for, and a value that stands for none leaves the reset timestamp. \<open>newDate\<close>
  is \<open>new Date(v)\<close> for a nullable date column: \<open>new Date(null)\<close> is the epoch.
\<close>

definition maxDate :: "(string \<Rightarrow> int option) \<Rightarrow> date_value \<Rightarrow> int \<Rightarrow> int" where
  "maxDate isoInstant a b =
     (case (case a of DateObject t \<Rightarrow> Some t | DateString s \<Rightarrow> isoInstant s) of
        None \<Rightarrow> b
      | Some t \<Rightarrow> max t b)"

definition newDate :: "int option \<Rightarrow> int" where
  "newDate v = (case v of None \<Rightarrow> 0 | Some t \<Rightarrow> t)"

section \<open>FilterTranslator: parseFilters (src/lib/clickhouse.ts)\<close>

text \<open>
  \<open>QueryFilters\<close>: the start and end date, which the reporting API always supplies
  (as text or as \<open>Date\<close> objects), the
  optional \<open>timezone\<close>, \<open>unit\<close> and \<open>eventType\<close>, and the further keys of the object
  (filters on dimensions such as \<open>url\<close> or \<open>browser\<close>) in \<open>filter_dimensions\<close>.
  \<open>objectKeys\<close> is \<open>Object.keys(filters)\<close>.
\<close>

datatype param = PString string | PDate int | PEventType EVENT_TYPE

datatype OPERATORS = equals | notEquals | contains | doesNotContain | otherOperator

record QueryFilters =
  filter_startDate :: date_value
  filter_endDate :: date_value
  filter_timezone :: "string option"
  filter_unit :: "string option"
  filter_eventType :: "EVENT_TYPE option"
  filter_dimensions :: "(string \<times> string) list"

definition objectKeys :: "QueryFilters \<Rightarrow> string list" where
  "objectKeys filters =
     [''startDate'', ''endDate'']
     @ (case filter_timezone filters of None \<Rightarrow> [] | Some _ \<Rightarrow> [''timezone''])
     @ (case filter_unit filters of None \<Rightarrow> [] | Some _ \<Rightarrow> [''unit''])
     @ (case filter_eventType filters of None \<Rightarrow> [] | Some _ \<Rightarrow> [''eventType''])
     @ map fst (filter_dimensions filters)"

text \<open>
  \<open>filtersToArray\<close> (lib/params) and the table \<open>OPERATORS\<close> (lib/constants) are not
  among the sources. The functions below take the array that \<open>filtersToArray\<close> returns
  as a parameter: entries of \<open>name\<close>, \<open>column\<close>, \<open>operator\<close> and \<open>value\<close>. The operator
  is one of the four of \<open>OPERATORS\<close> that \<open>mapFilter\<close> knows, or another one.
\<close>

record filter_entry =
  entry_name :: string
  entry_column :: "string option"
  entry_operator :: OPERATORS
  entry_value :: "param option"

definition mapFilter :: "string \<Rightarrow> OPERATORS \<Rightarrow> string \<Rightarrow> string" where
  "mapFilter col op nm =
     (let v = ''{'' @ nm @ '':String}'' in
      case op of
        equals \<Rightarrow> col @ '' = '' @ v
      | notEquals \<Rightarrow> col @ '' != '' @ v
      | contains \<Rightarrow> ''positionCaseInsensitive('' @ col @ '', '' @ v @ '') > 0''
      | doesNotContain \<Rightarrow> ''positionCaseInsensitive('' @ col @ '', '' @ v @ '') = 0''
      | otherOperator \<Rightarrow> '''')"

fun join :: "string \<Rightarrow> string list \<Rightarrow> string" where
  "join sep [] = ''''"
| "join sep [x] = x"
| "join sep (x # y # ys) = x @ sep @ join sep (y # ys)"

definition getFilterQuery :: "filter_entry list \<Rightarrow> string" where
  "getFilterQuery entries =
     join [CHR 0x0A]
       (fold (\<lambda>e arr.
          case entry_column e of
            None \<Rightarrow> arr
          | Some col \<Rightarrow>
              if col = '''' then arr
              else arr @ [''and '' @ mapFilter col (entry_operator e) (entry_name e)]
                   @ (if entry_name e = ''referrer''
                      then [''and referrer_domain != {websiteDomain:String}''] else []))
        entries [])"

definition getFilterParams :: "filter_entry list \<Rightarrow> (string \<rightharpoonup> param)" where
  "getFilterParams entries =
     fold (\<lambda>e obj. if entry_name e \<noteq> '''' \<and> entry_value e \<noteq> None
                    then obj(entry_name e := entry_value e) else obj)
       entries Map.empty"

text \<open>
  \<open>parseFilters\<close> reads the website and builds the query fragment and the parameters.
  The object spread puts the filter parameters first, so \<open>websiteId\<close>, \<open>startDate\<close> and
  \<open>websiteDomain\<close> override a filter parameter of the same name. When there is no such
  website, \<open>website.domain\<close> throws a \<open>TypeError\<close>. The \<open>dateQuery\<close> component, which
  \<open>getPageviewStats\<close> does not read, is left out.
\<close>

datatype query_error = TypeError

record parsed_filters =
  filterQuery :: string
  params :: "string \<rightharpoonup> param"

definition parseFilters ::
  "(string \<Rightarrow> int option) \<Rightarrow> (QueryFilters \<Rightarrow> filter_entry list) \<Rightarrow> Database \<Rightarrow>
     string \<Rightarrow> QueryFilters \<Rightarrow> query_error + parsed_filters" where
  "parseFilters isoInstant filtersToArray db websiteId filters =
     (case getWebsite db websiteId of
        None \<Rightarrow> Inl TypeError
      | Some website \<Rightarrow>
          Inr \<lparr>filterQuery = getFilterQuery (filtersToArray filters),
               params = (getFilterParams (filtersToArray filters))
                 (''websiteId'' \<mapsto> PString websiteId,
                  ''startDate'' \<mapsto> PDate (maxDate isoInstant (filter_startDate filters)
                                           (newDate (resetAt website))),
                  ''websiteDomain'' \<mapsto> PString (domain website))\<rparr>)"

section \<open>QueryRouter: getPageviewStats (src/queries/analytics/pageviews/getPageviewStats.ts)\<close>

text \<open>
  The result of a query is either the rows read from the rollup table, as pairs of
  bucket start and pageviews, or the detailed query handed to \<open>rawQuery\<close>: the table it
  scans, the unit and time zone of its buckets, the filter fragment and the parameters.
  What the store answers to a detailed query is outside the model.
\<close>

datatype query_table = website_event | website_event_stats_hourly

record detailed_query =
  from_table :: query_table
  date_unit :: string
  date_timezone :: string
  query_filter :: string
  query_params :: "string \<rightharpoonup> param"

datatype pageview_stats = Aggregated "(int \<times> int) list" | Detailed detailed_query

text \<open>
  \<open>findManyStats\<close> is the \<open>websiteStats.findMany\<close> of both code paths: the daily rows of
  the website whose \<open>startDate\<close> lies between the two bounds, in ascending order. The
  bounds are \<open>startOfDay\<close> and \<open>endOfDay\<close> of what \<open>parseISO\<close> returned, invalid dates
  when that was one; no row lies between bounds of which one is an invalid date.
\<close>

definition findManyStats ::
  "WebsiteStats list \<Rightarrow> string \<Rightarrow> int option \<Rightarrow> int option \<Rightarrow> WebsiteStats list" where
  "findManyStats stats websiteId gte lte =
     (case gte of
        None \<Rightarrow> []
      | Some lower \<Rightarrow>
          (case lte of
             None \<Rightarrow> []
           | Some upper \<Rightarrow>
               sort_key stats_startDate
                 (filter (\<lambda>r. stats_websiteId r = websiteId \<and> lower \<le> stats_startDate r
                              \<and> stats_startDate r \<le> upper \<and> stats_period r = daily) stats)))"

definition toXY :: "WebsiteStats list \<Rightarrow> (int \<times> int) list" where
  "toXY aggregatedStats = map (\<lambda>stat. (stats_startDate stat, stats_pageviews stat)) aggregatedStats"

text \<open>
  \<open>relationalQuery\<close>. Its \<open>parseFilters\<close> is that of lib/prisma, which is not among
  the sources; it is a parameter. \<open>relationalDetailed\<close> is the part of the function
  from \<open>STEP 3\<close> on.
\<close>

definition relationalDetailed ::
  "(string \<Rightarrow> QueryFilters \<Rightarrow> query_error + parsed_filters) \<Rightarrow>
     string \<Rightarrow> QueryFilters \<Rightarrow> query_error + pageview_stats" where
  "relationalDetailed prismaParseFilters websiteId filters =
     (case prismaParseFilters websiteId (filters\<lparr>filter_eventType := Some pageView\<rparr>) of
        Inl e \<Rightarrow> Inl e
      | Inr parsed \<Rightarrow>
          Inr (Detailed \<lparr>from_table = website_event,
                 date_unit = (case filter_unit filters of None \<Rightarrow> ''day'' | Some u \<Rightarrow> u),
                 date_timezone = (case filter_timezone filters of None \<Rightarrow> ''utc'' | Some z \<Rightarrow> z),
                 query_filter = filterQuery parsed,
                 query_params = params parsed\<rparr>))"

definition relationalQuery ::
  "(string \<Rightarrow> int option) \<Rightarrow> (string \<Rightarrow> QueryFilters \<Rightarrow> query_error + parsed_filters) \<Rightarrow>
     Database \<Rightarrow> string \<Rightarrow> QueryFilters \<Rightarrow> query_error + pageview_stats" where
  "relationalQuery isoInstant prismaParseFilters db websiteId filters =
     (let unit = (case filter_unit filters of None \<Rightarrow> ''day'' | Some u \<Rightarrow> u) in
      if unit = ''day'' then
        (let start = parseISO isoInstant (filter_startDate filters);
             end = parseISO isoInstant (filter_endDate filters);
             aggregatedStats = findManyStats (db_websiteStats db) websiteId
                                 (map_option startOfDay start) (map_option endOfDay end)
         in if length aggregatedStats > 0 then Inr (Aggregated (toXY aggregatedStats))
            else relationalDetailed prismaParseFilters websiteId filters)
      else relationalDetailed prismaParseFilters websiteId filters)"

text \<open>
  \<open>clickhouseQuery\<close>. The list \<open>EVENT_COLUMNS\<close> (lib/constants) is not among the
  sources; it is a parameter. \<open>usesEventColumn\<close> is
  \<open>EVENT_COLUMNS.some(item => Object.keys(filters).includes(item))\<close>, and
  \<open>clickhouseDetailed\<close> is the part of the function from \<open>STEP 3\<close> on.
\<close>

definition usesEventColumn :: "string list \<Rightarrow> QueryFilters \<Rightarrow> bool" where
  "usesEventColumn EVENT_COLUMNS filters =
     list_ex (\<lambda>item. item \<in> set (objectKeys filters)) EVENT_COLUMNS"

definition clickhouseDetailed ::
  "(string \<Rightarrow> int option) \<Rightarrow> string list \<Rightarrow> (QueryFilters \<Rightarrow> filter_entry list) \<Rightarrow>
     Database \<Rightarrow> string \<Rightarrow> QueryFilters \<Rightarrow> query_error + pageview_stats" where
  "clickhouseDetailed isoInstant EVENT_COLUMNS filtersToArray db websiteId filters =
     (let unit = (case filter_unit filters of None \<Rightarrow> ''day'' | Some u \<Rightarrow> u) in
      case parseFilters isoInstant filtersToArray db websiteId
             (filters\<lparr>filter_eventType := Some pageView\<rparr>) of
        Inl e \<Rightarrow> Inl e
      | Inr parsed \<Rightarrow>
          Inr (Detailed \<lparr>from_table =
                   (if usesEventColumn EVENT_COLUMNS filters \<or> unit = ''minute''
                    then website_event else website_event_stats_hourly),
                 date_unit = unit,
                 date_timezone = (case filter_timezone filters of None \<Rightarrow> ''utc'' | Some z \<Rightarrow> z),
                 query_filter = filterQuery parsed,
                 query_params = params parsed\<rparr>))"

definition clickhouseQuery ::
  "(string \<Rightarrow> int option) \<Rightarrow> string list \<Rightarrow> (QueryFilters \<Rightarrow> filter_entry list) \<Rightarrow>
     Database \<Rightarrow> string \<Rightarrow> QueryFilters \<Rightarrow> query_error + pageview_stats" where
  "clickhouseQuery isoInstant EVENT_COLUMNS filtersToArray db websiteId filters =
     (let unit = (case filter_unit filters of None \<Rightarrow> ''day'' | Some u \<Rightarrow> u) in
      if unit = ''day'' \<and> \<not> usesEventColumn EVENT_COLUMNS filters then
        (let start = parseISO isoInstant (filter_startDate filters);
             end = parseISO isoInstant (filter_endDate filters);
             aggregatedStats = findManyStats (db_websiteStats db) websiteId
                                 (map_option startOfDay start) (map_option endOfDay end)
         in if length aggregatedStats > 0 then Inr (Aggregated (toXY aggregatedStats))
            else clickhouseDetailed isoInstant EVENT_COLUMNS filtersToArray db websiteId filters)
      else clickhouseDetailed isoInstant EVENT_COLUMNS filtersToArray db websiteId filters)"

section \<open>AggregationJob (src/scripts/aggregate-stats.ts)\<close>

definition RETENTION_DAYS :: int where
  "RETENTION_DAYS = 30"

text \<open>
  \<open>toLowerCase\<close> maps the letters \<open>A\<close> to \<open>Z\<close> to lower case and leaves every other
  character as it is.
\<close>

definition toLowerCase :: "string \<Rightarrow> string" where
  "toLowerCase s =
     map (\<lambda>c. case map_of (zip ''ABCDEFGHIJKLMNOPQRSTUVWXYZ'' ''abcdefghijklmnopqrstuvwxyz'') c of
                None \<Rightarrow> c
              | Some l \<Rightarrow> l) s"

text \<open>
  \<open>findManySessions\<close> is \<open>session.findMany\<close> with \<open>include: { websiteEvent: true }\<close>:
  the sessions of the website created in \<open>[startDate, endDate)\<close>, each with all the events
  that refer to it. The three values computed from them follow: \<open>uniqueVisitors\<close> is the
  size of the set of session ids, \<open>pageviews\<close> the sum of the numbers of events, and
  \<open>deviceCounts\<close> the object that counts sessions by \<open>session.device?.toLowerCase() ||
  'unknown'\<close>. \<open>countOr0 deviceCounts key\<close> is \<open>deviceCounts[key] || 0\<close>.
\<close>

definition findManySessions ::
  "Database \<Rightarrow> string \<Rightarrow> int \<Rightarrow> int \<Rightarrow> (Session \<times> WebsiteEvent list) list" where
  "findManySessions db websiteId startDate endDate =
     map (\<lambda>s. (s, filter (\<lambda>e. event_sessionId e = session_id s) (db_websiteEvent db)))
       (filter (\<lambda>s. session_websiteId s = websiteId \<and> startDate \<le> session_createdAt s
                    \<and> session_createdAt s < endDate) (db_session db))"

definition uniqueVisitorsOf :: "(Session \<times> WebsiteEvent list) list \<Rightarrow> int" where
  "uniqueVisitorsOf sessions = int (length (remdups (map (\<lambda>s. session_id (fst s)) sessions)))"

definition pageviewsOf :: "(Session \<times> WebsiteEvent list) list \<Rightarrow> int" where
  "pageviewsOf sessions = fold (\<lambda>session sum. sum + int (length (snd session))) sessions 0"

definition deviceOf :: "Session \<Rightarrow> string" where
  "deviceOf s =
     (case device s of
        None \<Rightarrow> ''unknown''
      | Some d \<Rightarrow> if toLowerCase d = [] then ''unknown'' else toLowerCase d)"

definition deviceCountsOf :: "(Session \<times> WebsiteEvent list) list \<Rightarrow> (string \<rightharpoonup> int)" where
  "deviceCountsOf sessions =
     fold (\<lambda>session acc.
        let device = deviceOf (fst session)
        in acc(device \<mapsto> (case acc device of None \<Rightarrow> 0 | Some n \<Rightarrow> n) + 1))
       sessions Map.empty"

definition countOr0 :: "(string \<rightharpoonup> int) \<Rightarrow> string \<Rightarrow> int" where
  "countOr0 deviceCounts key = (case deviceCounts key of None \<Rightarrow> 0 | Some n \<Rightarrow> n)"

text \<open>
  The two \<open>websiteEvent.groupBy\<close> queries: the events of the website in the range,
  grouped by \<open>urlPath\<close> (the 100 groups of highest count) and by \<open>referrerDomain\<close> (the
  events that have one). The store decides the order among groups of equal count; here
  they keep the order of \<open>remdups\<close>. The two \<open>reduce\<close> calls turn the groups into
  objects; \<open>setKey\<close> is the assignment of one key.
\<close>

definition groupByCount :: "'k list \<Rightarrow> ('k \<times> int) list" where
  "groupByCount keys = map (\<lambda>k. (k, int (count_list keys k))) (remdups keys)"

definition eventsInRange :: "Database \<Rightarrow> string \<Rightarrow> int \<Rightarrow> int \<Rightarrow> WebsiteEvent list" where
  "eventsInRange db websiteId startDate endDate =
     filter (\<lambda>e. event_websiteId e = websiteId \<and> startDate \<le> event_createdAt e
                  \<and> event_createdAt e < endDate) (db_websiteEvent db)"

definition groupByUrlPath :: "Database \<Rightarrow> string \<Rightarrow> int \<Rightarrow> int \<Rightarrow> (string \<times> int) list" where
  "groupByUrlPath db websiteId startDate endDate =
     take 100 (sort_key (\<lambda>g. - snd g)
       (groupByCount (map event_urlPath (eventsInRange db websiteId startDate endDate))))"

definition groupByReferrerDomain ::
  "Database \<Rightarrow> string \<Rightarrow> int \<Rightarrow> int \<Rightarrow> (string option \<times> int) list" where
  "groupByReferrerDomain db websiteId startDate endDate =
     groupByCount (map event_referrerDomain
       (filter (\<lambda>e. event_referrerDomain e \<noteq> None)
          (eventsInRange db websiteId startDate endDate)))"

fun setKey :: "string \<Rightarrow> int \<Rightarrow> (string \<times> int) list \<Rightarrow> (string \<times> int) list" where
  "setKey k v [] = [(k, v)]"
| "setKey k v (kv # kvs) = (if fst kv = k then (k, v) # kvs else kv # setKey k v kvs)"

definition urlDataOf :: "(string \<times> int) list \<Rightarrow> (string \<times> int) list" where
  "urlDataOf urlData = fold (\<lambda>g acc. setKey (fst g) (snd g) acc) urlData []"

definition referrerDataOf :: "(string option \<times> int) list \<Rightarrow> (string \<times> int) list" where
  "referrerDataOf referrerData =
     fold (\<lambda>g acc.
        setKey (case fst g of None \<Rightarrow> ''direct''
                | Some d \<Rightarrow> if d = [] then ''direct'' else d) (snd g) acc)
       referrerData []"

text \<open>
  The \<open>create\<close> and \<open>update\<close> arguments of the upsert, as the source writes them out,
  and the upsert on the key \<open>websiteId_startDate_period\<close>: a row with the key is
  updated, otherwise the created row is added.
\<close>

definition createData :: "Database \<Rightarrow> string \<Rightarrow> int \<Rightarrow> int \<Rightarrow> WebsiteStats" where
  "createData db websiteId startDate endDate =
     (let sessions = findManySessions db websiteId startDate endDate;
          deviceCounts = deviceCountsOf sessions
      in \<lparr>stats_websiteId = websiteId,
          stats_startDate = startDate,
          stats_endDate = endDate,
          stats_period = daily,
          stats_pageviews = pageviewsOf sessions,
          stats_sessions = int (length sessions),
          stats_bounces = 0,
          stats_totalDuration = 0,
          stats_uniqueVisitors = uniqueVisitorsOf sessions,
          stats_desktopViews = countOr0 deviceCounts ''desktop'',
          stats_mobileViews = countOr0 deviceCounts ''mobile'',
          stats_tabletViews = countOr0 deviceCounts ''tablet'',
          stats_urlData = urlDataOf (groupByUrlPath db websiteId startDate endDate),
          stats_referrerData = referrerDataOf (groupByReferrerDomain db websiteId startDate endDate)\<rparr>)"

definition updateData :: "Database \<Rightarrow> string \<Rightarrow> int \<Rightarrow> int \<Rightarrow> WebsiteStats \<Rightarrow> WebsiteStats" where
  "updateData db websiteId startDate endDate row =
     (let sessions = findManySessions db websiteId startDate endDate;
          deviceCounts = deviceCountsOf sessions
      in row\<lparr>stats_pageviews := pageviewsOf sessions,
             stats_sessions := int (length sessions),
             stats_uniqueVisitors := uniqueVisitorsOf sessions,
             stats_desktopViews := countOr0 deviceCounts ''desktop'',
             stats_mobileViews := countOr0 deviceCounts ''mobile'',
             stats_tabletViews := countOr0 deviceCounts ''tablet'',
             stats_urlData := urlDataOf (groupByUrlPath db websiteId startDate endDate),
             stats_referrerData := referrerDataOf (groupByReferrerDomain db websiteId startDate endDate)\<rparr>)"

definition upsert ::
  "(WebsiteStats \<Rightarrow> bool) \<Rightarrow> WebsiteStats \<Rightarrow> (WebsiteStats \<Rightarrow> WebsiteStats) \<Rightarrow>
     WebsiteStats list \<Rightarrow> WebsiteStats list" where
  "upsert matches create update table =
     (if list_ex matches table then map (\<lambda>row. if matches row then update row else row) table
      else table @ [create])"

text \<open>
  Nothing in the two steps throws by itself: an error comes from the store. \<open>storeFails
  websiteId step\<close> tells whether the store throws in that step for that website; a step
  that throws leaves the store as it was.
\<close>

datatype job_step = Aggregate | DeleteOld

datatype job_error = StoreError string job_step

definition aggregateWebsiteStats ::
  "(string \<Rightarrow> job_step \<Rightarrow> bool) \<Rightarrow> string \<Rightarrow> int \<Rightarrow> int \<Rightarrow> Database \<Rightarrow> job_error + Database" where
  "aggregateWebsiteStats storeFails websiteId startDate endDate db =
     (if storeFails websiteId Aggregate then Inl (StoreError websiteId Aggregate)
      else Inr (db\<lparr>db_websiteStats :=
             upsert (\<lambda>row. stats_websiteId row = websiteId \<and> stats_startDate row = startDate
                           \<and> stats_period row = daily)
               (createData db websiteId startDate endDate)
               (updateData db websiteId startDate endDate)
               (db_websiteStats db)\<rparr>))"

definition deleteOldData ::
  "(string \<Rightarrow> job_step \<Rightarrow> bool) \<Rightarrow> string \<Rightarrow> int \<Rightarrow> Database \<Rightarrow> job_error + Database" where
  "deleteOldData storeFails websiteId beforeDate db =
     (if storeFails websiteId DeleteOld then Inl (StoreError websiteId DeleteOld)
      else Inr (db\<lparr>db_websiteEvent :=
                    filter (\<lambda>e. \<not> (event_websiteId e = websiteId \<and> event_createdAt e < beforeDate))
                      (db_websiteEvent db),
                  db_session :=
                    filter (\<lambda>s. \<not> (session_websiteId s = websiteId \<and> session_createdAt s < beforeDate))
                      (db_session db)\<rparr>))"

text \<open>
  \<open>main\<close>. The loop is inside one \<open>try\<close>: an error leaves the loop, is logged and
  thrown again, and after the \<open>finally\<close> block has disconnected, the caller exits with
  status 1. \<open>clock i\<close> is \<open>new Date()\<close> in the \<open>i\<close>-th pass of the loop. The run
  records the error thrown, the names of the websites logged as completed, the store, and
  whether \<open>prisma.$disconnect()\<close> was called.
\<close>

record job_run =
  thrown :: "job_error option"
  completed :: "string list"
  store :: Database
  disconnected :: bool
  exitCode :: nat

fun forEachWebsite ::
  "(string \<Rightarrow> job_step \<Rightarrow> bool) \<Rightarrow> (nat \<Rightarrow> int) \<Rightarrow> nat \<Rightarrow> Website list \<Rightarrow> Database \<Rightarrow>
     string list \<Rightarrow> job_error option \<times> Database \<times> string list" where
  "forEachWebsite storeFails clock i [] db processed = (None, db, processed)"
| "forEachWebsite storeFails clock i (w # websites) db processed =
     (let today = clock i;
          aggregationDate = subDays today RETENTION_DAYS;
          startDate = startOfDay aggregationDate;
          endDate = endOfDay aggregationDate
      in case aggregateWebsiteStats storeFails (website_id w) startDate endDate db of
           Inl error \<Rightarrow> (Some error, db, processed)
         | Inr db1 \<Rightarrow>
             (case deleteOldData storeFails (website_id w) startDate db1 of
                Inl error \<Rightarrow> (Some error, db1, processed)
              | Inr db2 \<Rightarrow>
                  forEachWebsite storeFails clock (Suc i) websites db2 (processed @ [website_name w])))"

definition main :: "(string \<Rightarrow> job_step \<Rightarrow> bool) \<Rightarrow> (nat \<Rightarrow> int) \<Rightarrow> Database \<Rightarrow> job_run" where
  "main storeFails clock db =
     (let websites = filter (\<lambda>w. deletedAt w = None) (db_website db)
      in case forEachWebsite storeFails clock 0 websites db [] of
           (error, db', processed) \<Rightarrow>
             \<lparr>thrown = error, completed = processed, store = db', disconnected = True,
              exitCode = (if error = None then 0 else 1)\<rparr>)"

text \<open>
  \<open>resetWebsite\<close> (src/queries/prisma/website.ts) at time \<open>now\<close>: the transaction
  deletes the events and sessions of the website (and their \<open>eventData\<close> and
  \<open>sessionData\<close>, tables the model does not hold) and sets \<open>resetAt\<close>. It does not
  touch \<open>websiteStats\<close>.
\<close>

definition resetWebsite :: "string \<Rightarrow> int \<Rightarrow> Database \<Rightarrow> Database" where
  "resetWebsite websiteId now db =
     db\<lparr>db_websiteEvent := filter (\<lambda>e. event_websiteId e \<noteq> websiteId) (db_websiteEvent db),
        db_session := filter (\<lambda>s. session_websiteId s \<noteq> websiteId) (db_session db),
        db_website := map (\<lambda>w. if website_id w = websiteId then w\<lparr>resetAt := Some now\<rparr> else w)
                     (db_website db)\<rparr>"

text \<open>
  Names for the statement about \<open>main\<close>: the websites it fetches, whether both steps of
  a website succeed, and the error of the first website for which one does not.
\<close>

definition activeWebsites :: "Database \<Rightarrow> Website list" where
  "activeWebsites db = filter (\<lambda>w. deletedAt w = None) (db_website db)"

definition stepsSucceed :: "(string \<Rightarrow> job_step \<Rightarrow> bool) \<Rightarrow> Website \<Rightarrow> bool" where
  "stepsSucceed storeFails w =
     (\<not> storeFails (website_id w) Aggregate \<and> \<not> storeFails (website_id w) DeleteOld)"

definition firstFailure :: "(string \<Rightarrow> job_step \<Rightarrow> bool) \<Rightarrow> Website list \<Rightarrow> job_error option" where
  "firstFailure storeFails websites =
     (case dropWhile (stepsSucceed storeFails) websites of
        [] \<Rightarrow> None
      | w # _ \<Rightarrow>
          Some (StoreError (website_id w)
                  (if storeFails (website_id w) Aggregate then Aggregate else DeleteOld)))"

section \<open>The collection endpoint (src/pages/api/send.ts)\<close>

text \<open>
  The handler from the point where the request has passed the method check, the bot
  check, the validation and the IP check, and \<open>useSession\<close> has set \<open>req.session\<close>.
  Of the session, the model keeps \<open>id\<close> (here \<open>session_key\<close>), \<open>websiteId\<close>,
  \<open>visitId\<close> and \<open>iat\<close>; the further fields (\<open>hostname\<close>, \<open>browser\<close>, ...) pass through
  unchanged. \<open>iat\<close> is a number of seconds, or absent.

  What the handler calls and this repository or its packages define elsewhere is
  gathered in \<open>Deps\<close>: \<open>uuid\<close> and \<open>visitSalt\<close> (lib/crypto; \<open>visitSalt\<close> reads the
  clock, so it takes the time), \<open>safeDecodeURI\<close> (next-basics), the constructor
  \<open>URL\<close> (no result when it throws), the environment variable
  \<open>REMOVE_TRAILING_SLASH\<close>, and whether the store throws on the call.
\<close>

record CollectSession =
  session_key :: string
  session_website :: string
  visitId :: string
  iat :: "int option"

record Payload =
  payload_website :: string
  payload_data :: "(string \<times> string) list option"
  payload_name :: "string option"
  payload_referrer :: "string option"
  payload_tag :: "string option"
  payload_title :: "string option"
  payload_url :: "string option"

datatype COLLECTION_TYPE = event | identify | otherType

record URL =
  pathname :: string
  search :: string
  hostname :: string

record Deps =
  uuid :: "string \<Rightarrow> string \<Rightarrow> string"
  visitSalt :: "int \<Rightarrow> string"
  safeDecodeURI :: "string option \<Rightarrow> string option"
  newURL :: "string \<Rightarrow> URL option"
  REMOVE_TRAILING_SLASH :: bool
  storeThrows :: bool

record SaveEventArgs =
  ev_urlPath :: string
  ev_urlQuery :: string
  ev_referrerPath :: "string option"
  ev_referrerQuery :: "string option"
  ev_referrerDomain :: string
  ev_pageTitle :: "string option"
  ev_eventName :: "string option"
  ev_eventData :: "(string \<times> string) list option"
  ev_session :: CollectSession
  ev_sessionId :: string
  ev_tag :: "string option"

datatype store_call =
    saveEvent SaveEventArgs
  | saveSessionData string string "(string \<times> string) list"
  | noCall

datatype collect_error = InvalidSession | MissingData | ProcessingFailed

datatype response = badRequest collect_error | send CollectSession store_call

text \<open>
  Lines 152 to 158: \<open>iat\<close> is \<open>Math.floor(new Date().getTime() / 1000)\<close>; the visit id
  is replaced when the session has a truthy \<open>iat\<close> that lies more than 1800 before it;
  then the session takes the new \<open>iat\<close>.
\<close>

definition expireVisit :: "Deps \<Rightarrow> int \<Rightarrow> CollectSession \<Rightarrow> CollectSession" where
  "expireVisit deps nowMs session =
     (let now = nowMs div 1000;
          session1 =
            (case iat session of
               None \<Rightarrow> session
             | Some lastIat \<Rightarrow>
                 if lastIat \<noteq> 0 \<and> now - lastIat > 1800
                 then session\<lparr>visitId := uuid deps (session_key session) (visitSalt deps nowMs)\<rparr>
                 else session)
      in session1\<lparr>iat := Some now\<rparr>)"

text \<open>
  \<open>js_split\<close> is \<open>String.prototype.split\<close> with a separator of one character, and
  \<open>splitQuery\<close> the destructuring \<open>[path, query] = decoded?.split('?') || []\<close>.
\<close>

fun js_split :: "char \<Rightarrow> string \<Rightarrow> string list" where
  "js_split sep [] = [[]]"
| "js_split sep (c # cs) =
     (if c = sep then [] # js_split sep cs
      else (case js_split sep cs of
              [] \<Rightarrow> [[c]]
            | part # parts \<Rightarrow> (c # part) # parts))"

definition splitQuery :: "string option \<Rightarrow> string option \<times> string option" where
  "splitQuery decoded =
     (case decoded of
        None \<Rightarrow> (None, None)
      | Some s \<Rightarrow>
          (let parts = js_split CHR ''?'' s
           in (if 0 < length parts then Some (parts ! 0) else None,
               if 1 < length parts then Some (parts ! 1) else None)))"

text \<open>
  \<open>hasScheme\<close> is the test of \<open>/^[\w-]+:\/\/\w+/\<close>: a non-empty run of word
  characters and hyphens from the start, then \<open>://\<close>, then a word character. The
  argument \<open>undefined\<close> is tested as the string \<open>undefined\<close>. \<open>removeFirst ''www.''\<close> is
  \<open>replace(/www\./, '')\<close>.
\<close>

definition isWordChar :: "char \<Rightarrow> bool" where
  "isWordChar c =
     (c \<in> set ''abcdefghijklmnopqrstuvwxyzABCDEFGHIJKLMNOPQRSTUVWXYZ0123456789_'')"

definition hasScheme :: "string option \<Rightarrow> bool" where
  "hasScheme referrerPath =
     (let s = (case referrerPath of None \<Rightarrow> ''undefined'' | Some p \<Rightarrow> p);
          rest = dropWhile (\<lambda>c. isWordChar c \<or> c = CHR ''-'') s
      in takeWhile (\<lambda>c. isWordChar c \<or> c = CHR ''-'') s \<noteq> []
         \<and> take 3 rest = ''://''
         \<and> (case drop 3 rest of [] \<Rightarrow> False | c # _ \<Rightarrow> isWordChar c))"

fun removeFirst :: "string \<Rightarrow> string \<Rightarrow> string" where
  "removeFirst pat [] = []"
| "removeFirst pat (c # cs) =
     (if take (length pat) (c # cs) = pat then drop (length pat) (c # cs)
      else c # removeFirst pat cs)"

text \<open>
  \<open>removeTrailingSlash\<close> is \<open>replace(/(.+)\/$/, '$1')\<close>. The pattern matches when the
  string ends in \<open>/\<close> and the character before that \<open>/\<close> exists and is one that \<open>.\<close>
  matches, so not a line terminator; the match then runs to the end of the string, and
  the replacement drops the final \<open>/\<close>.
\<close>

definition isLineTerminator :: "char \<Rightarrow> bool" where
  "isLineTerminator c = (c = CHR 0x0A \<or> c = CHR 0x0D)"

definition removeTrailingSlash :: "string \<Rightarrow> string" where
  "removeTrailingSlash s =
     (if 2 \<le> length s \<and> last s = CHR ''/'' \<and> \<not> isLineTerminator (s ! (length s - 2))
      then butlast s else s)"

text \<open>
  \<open>eventArgs\<close>: the branch \<open>type === COLLECTION_TYPE.event\<close> up to the call of
  \<open>saveEvent\<close>, with the object it passes. \<open>new URL(referrer)\<close> may throw, which the
  handler answers with a bad request.
\<close>

definition eventArgs ::
  "Deps \<Rightarrow> CollectSession \<Rightarrow> Payload \<Rightarrow> collect_error + SaveEventArgs" where
  "eventArgs deps session payload =
     (let (urlPath0, urlQuery0) = splitQuery (safeDecodeURI deps (payload_url payload));
          urlQuery = (case urlQuery0 of None \<Rightarrow> [] | Some q \<Rightarrow> q);
          (referrerPath0, referrerQuery0) =
            splitQuery (safeDecodeURI deps (payload_referrer payload));
          urlPath1 = (case urlPath0 of None \<Rightarrow> ''/'' | Some p \<Rightarrow> if p = [] then ''/'' else p);
          referrerParts =
            (if hasScheme referrerPath0 then
               (case payload_referrer payload of
                  None \<Rightarrow> None
                | Some referrer \<Rightarrow>
                    (case newURL deps referrer of
                       None \<Rightarrow> None
                     | Some refUrl \<Rightarrow>
                         Some (Some (pathname refUrl), Some (drop 1 (search refUrl)),
                               removeFirst ''www.'' (hostname refUrl))))
             else Some (referrerPath0, referrerQuery0, []));
          urlPath = (if REMOVE_TRAILING_SLASH deps then removeTrailingSlash urlPath1 else urlPath1)
      in case referrerParts of
           None \<Rightarrow> Inl ProcessingFailed
         | Some (referrerPath, referrerQuery, referrerDomain) \<Rightarrow>
             Inr \<lparr>ev_urlPath = urlPath,
                  ev_urlQuery = urlQuery,
                  ev_referrerPath = referrerPath,
                  ev_referrerQuery = referrerQuery,
                  ev_referrerDomain = referrerDomain,
                  ev_pageTitle = safeDecodeURI deps (payload_title payload),
                  ev_eventName = payload_name payload,
                  ev_eventData = payload_data payload,
                  ev_session = session,
                  ev_sessionId = session_key session,
                  ev_tag = payload_tag payload\<rparr>)"

text \<open>
  \<open>collect\<close>: the handler from the check of \<open>session.id\<close> to the response: a bad
  request, or the success response with the session that goes into the token and the
  call made to the store. A type that passed the validation and is neither of the two
  constants makes no call.
\<close>

definition collect ::
  "Deps \<Rightarrow> int \<Rightarrow> CollectSession \<Rightarrow> COLLECTION_TYPE \<Rightarrow> Payload \<Rightarrow> response" where
  "collect deps nowMs session0 type payload =
     (if session_key session0 = [] then badRequest InvalidSession
      else
        (let session = expireVisit deps nowMs session0 in
         case type of
           event \<Rightarrow>
             (case eventArgs deps session payload of
                Inl e \<Rightarrow> badRequest e
              | Inr args \<Rightarrow>
                  if storeThrows deps then badRequest ProcessingFailed
                  else send session (saveEvent args))
         | identify \<Rightarrow>
             (case payload_data payload of
                None \<Rightarrow> badRequest MissingData
              | Some data \<Rightarrow>
                  if storeThrows deps then badRequest ProcessingFailed
                  else send session
                         (saveSessionData (session_website session) (session_key session) data))
         | otherType \<Rightarrow> send session noCall))"

section \<open>Properties of the reaper\<close>

text \<open>
  What does hold of every pass: a client is closed only when its time since
  \<open>lastUsed\<close> exceeds the idle timeout, and a pool that holds no more than the minimum is
  left as it is.
\<close>

lemma reap_closed_timed_out:
  "list_all (\<lambda>c. now - lastUsed c > idleTimeoutMillis config)
     (snd (reapIdleConnections config now clients))"
  by (simp add: reapIdleConnections_def Let_def list_all_iff)

lemma reap_at_or_below_min:
  assumes "int (length clients) \<le> pool_min config"
  shows "reapIdleConnections config now clients = (clients, [])"
  using assms by (simp add: reapIdleConnections_def Let_def)

text \<open>
  C5. The claim: a pass of the reaper closes only connections that are idle (not
  acquired) and timed out, and never leaves fewer live connections than the configured
  minimum. The code tests neither \<open>isIdle\<close> nor the number of clients still kept: with
  the default configuration (minimum 2, idle timeout 30000 ms), a pool of three clients
  last used at time 0, the first of them acquired, is emptied by the pass at time 40000.
  The acquired client is closed and no connection is left.
\<close>

theorem reapIdleConnections_closes_busy_and_empties_pool:
  "reapIdleConnections defaultConfig 40000
     [\<lparr>clientId = 1, lastUsed = 0, isIdle = False\<rparr>,
      \<lparr>clientId = 2, lastUsed = 0, isIdle = True\<rparr>,
      \<lparr>clientId = 3, lastUsed = 0, isIdle = True\<rparr>]
   = ([],
      [\<lparr>clientId = 1, lastUsed = 0, isIdle = False\<rparr>,
       \<lparr>clientId = 2, lastUsed = 0, isIdle = True\<rparr>,
       \<lparr>clientId = 3, lastUsed = 0, isIdle = True\<rparr>])"
  by (simp add: reapIdleConnections_def defaultConfig_def Let_def)

section \<open>Properties of acquire\<close>

text \<open>
  The wait settles no later than the timeout. When it rejects, it does so at the
  timeout and no check before the timeout saw an idle client; when it resolves, it does so
  at a check, with the first idle client of the array at that time, and no earlier check
  saw one.
\<close>

lemma check_time:
  "t \<le> timeout \<Longrightarrow> fst (checkForIdleClient clientsAt timeout t) \<le> timeout"
proof (induction clientsAt timeout t rule: checkForIdleClient.induct)
  case (1 clientsAt timeout t)
  show ?case
  proof (cases "find isIdle (clientsAt t)")
    case None
    with 1 show ?thesis
      by (subst checkForIdleClient.simps) simp
  next
    case (Some c)
    with 1 show ?thesis
      by (subst checkForIdleClient.simps) simp
  qed
qed

lemma check_timeout:
  "checkForIdleClient clientsAt timeout t = (t', Inl e) \<Longrightarrow>
     t' = timeout \<and> e = TimeoutAcquiringClient \<and>
     (\<forall>k. t + 100 * int k < timeout \<longrightarrow> find isIdle (clientsAt (t + 100 * int k)) = None)"
proof (induction clientsAt timeout t rule: checkForIdleClient.induct)
  case (1 clientsAt timeout t)
  show ?case
  proof (cases "find isIdle (clientsAt t)")
    case (Some c)
    with 1(2) show ?thesis
      by (subst (asm) checkForIdleClient.simps) simp
  next
    case None
    show ?thesis
    proof (cases "t + 100 < timeout")
      case True
      with None 1(2) have rec: "checkForIdleClient clientsAt timeout (t + 100) = (t', Inl e)"
        by (subst (asm) checkForIdleClient.simps) simp
      from 1(1)[OF None True rec]
      have ih: "t' = timeout" "e = TimeoutAcquiringClient"
        "\<And>k. t + 100 + 100 * int k < timeout \<Longrightarrow> find isIdle (clientsAt (t + 100 + 100 * int k)) = None"
        by auto
      have "find isIdle (clientsAt (t + 100 * int k)) = None" if "t + 100 * int k < timeout" for k
      proof (cases k)
        case 0
        with None show ?thesis by simp
      next
        case (Suc j)
        with that ih(3)[of j] show ?thesis by (simp add: algebra_simps)
      qed
      with ih show ?thesis by blast
    next
      case False
      with None 1(2) have "t' = timeout" "e = TimeoutAcquiringClient"
        by (subst (asm) checkForIdleClient.simps, simp)+
      moreover have "find isIdle (clientsAt (t + 100 * int k)) = None" if "t + 100 * int k < timeout" for k
      proof (cases k)
        case 0
        with None show ?thesis by simp
      next
        case (Suc j)
        with that False show ?thesis by simp
      qed
      ultimately show ?thesis by blast
    qed
  qed
qed

lemma check_found:
  "checkForIdleClient clientsAt timeout t = (t', Inr c) \<Longrightarrow>
     find isIdle (clientsAt t') = Some c \<and>
     (\<exists>n. t' = t + 100 * int n \<and>
        (\<forall>k<n. find isIdle (clientsAt (t + 100 * int k)) = None)) \<and>
     (t' = t \<or> t' < timeout)"
proof (induction clientsAt timeout t rule: checkForIdleClient.induct)
  case (1 clientsAt timeout t)
  show ?case
  proof (cases "find isIdle (clientsAt t)")
    case (Some d)
    with 1(2) have "t' = t" "c = d"
      by (subst (asm) checkForIdleClient.simps, simp)+
    with Some show ?thesis by (auto intro: exI[of _ 0])
  next
    case None
    show ?thesis
    proof (cases "t + 100 < timeout")
      case True
      with None 1(2) have rec: "checkForIdleClient clientsAt timeout (t + 100) = (t', Inr c)"
        by (subst (asm) checkForIdleClient.simps) simp
      from 1(1)[OF None True rec] obtain n where
        ih: "find isIdle (clientsAt t') = Some c" "t' = t + 100 + 100 * int n"
          "\<And>k. k < n \<Longrightarrow> find isIdle (clientsAt (t + 100 + 100 * int k)) = None"
          "t' = t + 100 \<or> t' < timeout"
        by auto
      have "find isIdle (clientsAt (t + 100 * int k)) = None" if "k < Suc n" for k
      proof (cases k)
        case 0
        with None show ?thesis by simp
      next
        case (Suc j)
        with that ih(3)[of j] show ?thesis by (simp add: algebra_simps)
      qed
      moreover have "t' = t + 100 * int (Suc n)" using ih(2) by simp
      moreover have "t' < timeout" using ih(4) True by auto
      ultimately show ?thesis using ih(1) by blast
    next
      case False
      with None 1(2) show ?thesis
        by (subst (asm) checkForIdleClient.simps) simp
    qed
  qed
qed


text \<open>
  C6, as the code has it. When \<open>acquire\<close> is called with no idle client and the array
  at its maximum, it settles no later than the acquire timeout (as the timer takes it).
  It fails with the error \<open>Timeout acquiring client\<close> at the timeout, unless one of its
  checks, made every 100 ms from the call and before the timeout, finds an idle client;
  the first check that does returns that client, marked busy and stamped with the time
  of the check, and writes it back into the array.
\<close>

theorem acquire_at_max_polls_until_timeout:
  assumes "find isIdle (clientsAt 0) = None"
      and "\<not> int (length (clientsAt 0)) < pool_max config"
  shows "case acquire config now clientsAt of
           (t, Inl e) \<Rightarrow>
             e = TimeoutAcquiringClient \<and> t = timerDelay (acquireTimeoutMillis config) \<and>
             (\<forall>k. 100 * int k < t \<longrightarrow> find isIdle (clientsAt (100 * int k)) = None)
         | (t, Inr (client, clients)) \<Rightarrow>
             0 < t \<and> t < timerDelay (acquireTimeoutMillis config) \<and>
             (\<exists>n c. t = 100 * int n \<and> find isIdle (clientsAt t) = Some c \<and>
                (\<forall>k<n. find isIdle (clientsAt (100 * int k)) = None) \<and>
                client = c\<lparr>isIdle := False, lastUsed := now + t\<rparr> \<and>
                clients = storeClient client (clientsAt t))"
proof -
  let ?T = "timerDelay (acquireTimeoutMillis config)"
  obtain t r where chk: "checkForIdleClient clientsAt ?T 0 = (t, r)"
    by (cases "checkForIdleClient clientsAt ?T 0")
  show ?thesis
  proof (cases r)
    case (Inl e)
    with chk check_timeout[of clientsAt ?T 0 t e]
    have "t = ?T" "e = TimeoutAcquiringClient"
      "\<forall>k. 100 * int k < ?T \<longrightarrow> find isIdle (clientsAt (100 * int k)) = None"
      by auto
    with assms chk Inl show ?thesis
      by (simp add: acquire_def)
  next
    case (Inr c)
    with chk check_found[of clientsAt ?T 0 t c] obtain n where
      f: "find isIdle (clientsAt t) = Some c" "t = 100 * int n"
         "\<forall>k<n. find isIdle (clientsAt (100 * int k)) = None" "t = 0 \<or> t < ?T"
      by auto
    from f(1) assms(1) have "t \<noteq> 0" by auto
    with f(2,4) have "0 < t" "t < ?T" by auto
    with assms chk Inr f show ?thesis
      by (auto simp add: acquire_def markBusy_def)
  qed
qed

theorem acquire_at_max_witness:
  "find isIdle [\<lparr>clientId = 1, lastUsed = 0, isIdle = False\<rparr>] = None
   \<and> \<not> int (length [\<lparr>clientId = 1, lastUsed = 0, isIdle = False\<rparr>]) < 1
   \<and> acquire \<lparr>pool_min = 0, pool_max = 1, acquireTimeoutMillis = 30000,
        createTimeoutMillis = 30000, idleTimeoutMillis = 30000, reapIntervalMillis = 1000\<rparr>
        5000 (\<lambda>t. [\<lparr>clientId = 1, lastUsed = 0, isIdle = (150 \<le> t)\<rparr>])
      = (200, Inr (\<lparr>clientId = 1, lastUsed = 5200, isIdle = False\<rparr>,
                   [\<lparr>clientId = 1, lastUsed = 5200, isIdle = False\<rparr>]))"
  using acquire_at_max_polls_until_timeout
    [of "\<lambda>t. [\<lparr>clientId = 1, lastUsed = 0, isIdle = (150 \<le> t)\<rparr>]"
        "\<lparr>pool_min = 0, pool_max = 1, acquireTimeoutMillis = 30000,
          createTimeoutMillis = 30000, idleTimeoutMillis = 30000, reapIntervalMillis = 1000\<rparr>"
        5000]
  by (simp add: acquire_def checkForIdleClient.simps timerDelay_def markBusy_def storeClient_def)

text \<open>
  C6, as the claim has it, fails: an idle client that appears before the timeout is not
  returned when no check sees it in time. With a timeout of 50 ms and a pool of one
  client that another operation releases 10 ms after the call, the only check made is
  the one at the call, and \<open>acquire\<close> fails at 50 ms.
\<close>

theorem acquire_misses_idle_between_polls:
  "find isIdle [\<lparr>clientId = 1, lastUsed = 0, isIdle = (10 \<le> (0::int))\<rparr>] = None
   \<and> int (length [\<lparr>clientId = 1, lastUsed = 0, isIdle = (10 \<le> (0::int))\<rparr>]) = 1
   \<and> find isIdle [\<lparr>clientId = 1, lastUsed = 0, isIdle = (10 \<le> (10::int))\<rparr>]
       = Some \<lparr>clientId = 1, lastUsed = 0, isIdle = True\<rparr>
   \<and> acquire \<lparr>pool_min = 0, pool_max = 1, acquireTimeoutMillis = 50,
        createTimeoutMillis = 30000, idleTimeoutMillis = 30000, reapIntervalMillis = 1000\<rparr>
        0 (\<lambda>t. [\<lparr>clientId = 1, lastUsed = 0, isIdle = (10 \<le> t)\<rparr>])
      = (50, Inl TimeoutAcquiringClient)"
  by (simp add: acquire_def checkForIdleClient.simps timerDelay_def)

section \<open>Properties of findUnique\<close>

text \<open>
  C9. \<open>findUnique data\<close> throws exactly when \<open>data\<close> has more than one element; on
  the empty list it returns \<open>null\<close>, and on a list of one element it returns that element.
\<close>

theorem findUnique_throws_iff_many:
  "(isl (findUnique data) \<longleftrightarrow> length data > 1)
   \<and> findUnique ([] :: 'a list) = Inr None
   \<and> findUnique [x] = Inr (Some x)"
  by (simp add: findUnique_def findFirst_def)

section \<open>Properties of the query router\<close>

lemma maxDate_denoted:
  "maxDate isoInstant (DateObject t) r = max t r"
  "isoInstant s = Some t \<Longrightarrow> maxDate isoInstant (DateString s) r = max t r"
  by (simp_all add: maxDate_def)

lemma parseFilters_startDate:
  assumes "getWebsite db websiteId = Some website"
  shows "\<exists>parsed. parseFilters isoInstant filtersToArray db websiteId filters = Inr parsed
           \<and> params parsed ''startDate''
               = Some (PDate (maxDate isoInstant (filter_startDate filters)
                                (newDate (resetAt website))))"
  using assms by (simp add: parseFilters_def)

lemma clickhouseDetailed_startDate:
  assumes "getWebsite db websiteId = Some website"
  shows "\<exists>q. clickhouseDetailed isoInstant EVENT_COLUMNS filtersToArray db websiteId filters
               = Inr (Detailed q)
           \<and> query_params q ''startDate''
               = Some (PDate (maxDate isoInstant (filter_startDate filters)
                                (newDate (resetAt website))))"
  using assms by (simp add: clickhouseDetailed_def parseFilters_def Let_def)

lemma clickhouseDetailed_not_Aggregated:
  "clickhouseDetailed isoInstant EVENT_COLUMNS filtersToArray db websiteId filters
     \<noteq> Inr (Aggregated rows)"
  by (simp add: clickhouseDetailed_def Let_def split: sum.splits)

lemma clickhouseQuery_rollup_only_day_without_event_column:
  assumes "clickhouseQuery isoInstant EVENT_COLUMNS filtersToArray db websiteId filters
             = Inr (Aggregated rows)"
  shows "(filter_unit filters = None \<or> filter_unit filters = Some ''day'')
         \<and> \<not> usesEventColumn EVENT_COLUMNS filters"
proof (rule ccontr)
  assume "\<not> ?thesis"
  then have "clickhouseQuery isoInstant EVENT_COLUMNS filtersToArray db websiteId filters
      = clickhouseDetailed isoInstant EVENT_COLUMNS filtersToArray db websiteId filters"
    by (auto simp: clickhouseQuery_def Let_def split: option.splits)
  with assms clickhouseDetailed_not_Aggregated show False
    by metis
qed

lemma clickhouseQuery_event_column_detailed:
  assumes "usesEventColumn EVENT_COLUMNS filters" and "getWebsite db websiteId = Some website"
  shows "\<exists>q. clickhouseQuery isoInstant EVENT_COLUMNS filtersToArray db websiteId filters
               = Inr (Detailed q)
           \<and> from_table q = website_event"
  using assms
  by (simp add: clickhouseQuery_def clickhouseDetailed_def parseFilters_def Let_def)

text \<open>
  A request whose dates are \<open>Date\<close> objects never reads the rollup: \<open>parseISO\<close> returns
  an invalid date for them, and both code paths go on to the detailed query.
\<close>

lemma relationalQuery_Date_object:
  assumes "filter_startDate filters = DateObject t"
  shows "relationalQuery isoInstant prismaParseFilters db websiteId filters
           = relationalDetailed prismaParseFilters websiteId filters"
  using assms by (simp add: relationalQuery_def parseISO_def findManyStats_def Let_def)

lemma clickhouseQuery_Date_object:
  assumes "filter_startDate filters = DateObject t"
  shows "clickhouseQuery isoInstant EVENT_COLUMNS filtersToArray db websiteId filters
           = clickhouseDetailed isoInstant EVENT_COLUMNS filtersToArray db websiteId filters"
  using assms by (simp add: clickhouseQuery_def parseISO_def findManyStats_def Let_def)

lemma usesEventColumn_member:
  "usesEventColumn (pre @ k # post)
     \<lparr>filter_startDate = a, filter_endDate = b, filter_timezone = z, filter_unit = u,
      filter_eventType = e, filter_dimensions = [(k, v)]\<rparr>"
  by (simp add: usesEventColumn_def objectKeys_def list_ex_iff)

text \<open>
  C2. The claim: a query whose start date lies before the reset timestamp \<open>R\<close> of the
  website gets results for \<open>[R, endDate]\<close> only, on the daily-rollup read as on the direct
  scan. The direct scan does take \<open>max(S, R)\<close> as its start date (\<open>parseFilters\<close>, see
  \<open>clickhouseDetailed_startDate\<close>). The rollup read does not: it selects the rows from
  \<open>startOfDay(parseISO(S))\<close> on, and \<open>resetWebsite\<close> leaves the rollup rows in place.

  A website has one session with two pageviews on day 5 (1970-01-06). The job runs on
  day 35 and stores the rollup of day 5, with 2 pageviews. The website is reset on day
  40 (\<open>R = 3456000000\<close>). The daily query from \<open>1970-01-04\<close> (day 3) to \<open>1970-02-15\<close>
  (day 45), its dates given as the ISO texts the code parses, then returns the bucket of
  day 5, before \<open>R\<close>, on both code paths, while the direct scan of the same request
  starts at \<open>R\<close>.
\<close>

theorem rollup_read_returns_pre_reset_bucket:
  "let isoInstant = (\<lambda>s. if s = ''1970-01-04T00:00:00.000Z'' then Some 259200000
                        else if s = ''1970-02-15T00:00:00.000Z'' then Some 3888000000
                        else None);
       db0 = \<lparr>db_website =
                 [\<lparr>website_id = ''w1'', website_name = ''One'', domain = ''one.example'',
                    resetAt = None, deletedAt = None\<rparr>],
               db_session =
                 [\<lparr>session_id = ''s1'', session_websiteId = ''w1'',
                    session_createdAt = 432001000, device = Some ''desktop''\<rparr>],
               db_websiteEvent =
                 [\<lparr>event_id = ''e1'', event_websiteId = ''w1'', event_sessionId = ''s1'',
                    event_createdAt = 432001000, event_urlPath = ''/'',
                    event_referrerDomain = None, event_type = pageView\<rparr>,
                  \<lparr>event_id = ''e2'', event_websiteId = ''w1'', event_sessionId = ''s1'',
                    event_createdAt = 432002000, event_urlPath = ''/a'',
                    event_referrerDomain = None, event_type = pageView\<rparr>],
               db_websiteStats = []\<rparr>;
       job = main (\<lambda>w step. False) (\<lambda>i. 3024005000) db0;
       db = resetWebsite ''w1'' 3456000000 (store job);
       filters = \<lparr>filter_startDate = DateString ''1970-01-04T00:00:00.000Z'',
                  filter_endDate = DateString ''1970-02-15T00:00:00.000Z'',
                  filter_timezone = None, filter_unit = Some ''day'', filter_eventType = None,
                  filter_dimensions = []\<rparr>;
       EVENT_COLUMNS = [''browser'', ''os'', ''device'', ''country'']
   in thrown job = None
      \<and> map (\<lambda>r. (stats_startDate r, stats_pageviews r)) (db_websiteStats (store job))
          = [(432000000, 2)]
      \<and> map resetAt (db_website db) = [Some 3456000000]
      \<and> relationalQuery isoInstant (parseFilters isoInstant (\<lambda>f. []) db) db ''w1'' filters
          = Inr (Aggregated [(432000000, 2)])
      \<and> clickhouseQuery isoInstant EVENT_COLUMNS (\<lambda>f. []) db ''w1'' filters
          = Inr (Aggregated [(432000000, 2)])
      \<and> (432000000 :: int) < 3456000000
      \<and> (case clickhouseDetailed isoInstant EVENT_COLUMNS (\<lambda>f. []) db ''w1'' filters of
            Inr (Detailed q) \<Rightarrow> query_params q ''startDate'' = Some (PDate 3456000000)
          | _ \<Rightarrow> False)"
proof -
  let ?iso = "\<lambda>s. if s = ''1970-01-04T00:00:00.000Z'' then Some (259200000 :: int)
                   else if s = ''1970-02-15T00:00:00.000Z'' then Some 3888000000
                   else None"
  let ?website = "\<lparr>website_id = ''w1'', website_name = ''One'', domain = ''one.example'',
                     resetAt = None, deletedAt = None\<rparr>"
  let ?session = "\<lparr>session_id = ''s1'', session_websiteId = ''w1'',
                     session_createdAt = 432001000, device = Some ''desktop''\<rparr>"
  let ?first = "\<lparr>event_id = ''e1'', event_websiteId = ''w1'', event_sessionId = ''s1'',
                event_createdAt = 432001000, event_urlPath = ''/'',
                event_referrerDomain = None, event_type = pageView\<rparr>"
  let ?second = "\<lparr>event_id = ''e2'', event_websiteId = ''w1'', event_sessionId = ''s1'',
                event_createdAt = 432002000, event_urlPath = ''/a'',
                event_referrerDomain = None, event_type = pageView\<rparr>"
  let ?row = "\<lparr>stats_websiteId = ''w1'', stats_startDate = 432000000,
                 stats_endDate = 518399999, stats_period = daily, stats_pageviews = 2,
                 stats_sessions = 1, stats_bounces = 0, stats_totalDuration = 0,
                 stats_uniqueVisitors = 1, stats_desktopViews = 1, stats_mobileViews = 0,
                 stats_tabletViews = 0, stats_urlData = [(''/'', 1), (''/a'', 1)],
                 stats_referrerData = []\<rparr>"
  let ?initial = "\<lparr>db_website = [?website], db_session = [?session],
                 db_websiteEvent = [?first, ?second], db_websiteStats = []\<rparr>"
  let ?rolled = "\<lparr>db_website = [?website], db_session = [?session],
                 db_websiteEvent = [?first, ?second], db_websiteStats = [?row]\<rparr>"
  let ?reset = "\<lparr>db_website = [?website\<lparr>resetAt := Some 3456000000\<rparr>], db_session = [],
                db_websiteEvent = [], db_websiteStats = [?row]\<rparr>"
  let ?filters = "\<lparr>filter_startDate = DateString ''1970-01-04T00:00:00.000Z'',
                     filter_endDate = DateString ''1970-02-15T00:00:00.000Z'',
                     filter_timezone = None, filter_unit = Some ''day'',
                     filter_eventType = None, filter_dimensions = []\<rparr>"
  let ?cols = "[''browser'', ''os'', ''device'', ''country'']"
  have day: "startOfDay (subDays 3024005000 RETENTION_DAYS) = 432000000"
    "endOfDay (subDays 3024005000 RETENTION_DAYS) = 518399999"
    by (simp_all add: startOfDay_def endOfDay_def subDays_def RETENTION_DAYS_def)
  have created: "createData ?initial ''w1'' 432000000 518399999 = ?row"
    by (simp add: createData_def findManySessions_def pageviewsOf_def uniqueVisitorsOf_def
        deviceCountsOf_def countOr0_def deviceOf_def toLowerCase_def groupByUrlPath_def
        groupByReferrerDomain_def groupByCount_def eventsInRange_def urlDataOf_def
        referrerDataOf_def Let_def)
  have aggregated: "aggregateWebsiteStats (\<lambda>w step. False) ''w1'' 432000000 518399999 ?initial
      = Inr ?rolled"
    by (simp add: aggregateWebsiteStats_def upsert_def created)
  have deleted: "deleteOldData (\<lambda>w step. False) ''w1'' 432000000 ?rolled = Inr ?rolled"
    by (simp add: deleteOldData_def)
  have job: "main (\<lambda>w step. False) (\<lambda>i. 3024005000) ?initial
      = \<lparr>thrown = None, completed = [''One''], store = ?rolled, disconnected = True,
         exitCode = 0\<rparr>"
    by (simp add: main_def Let_def day aggregated deleted)
  have reset: "resetWebsite ''w1'' 3456000000 ?rolled = ?reset"
    by (simp add: resetWebsite_def)
  have bounds: "map_option startOfDay (parseISO ?iso (filter_startDate ?filters))
        = Some 259200000"
    "map_option endOfDay (parseISO ?iso (filter_endDate ?filters)) = Some 3974399999"
    by (simp_all add: parseISO_def startOfDay_def endOfDay_def)
  have rows: "findManyStats (db_websiteStats ?reset) ''w1'' (Some 259200000) (Some 3974399999)
      = [?row]"
    by (simp add: findManyStats_def)
  have relational:
    "relationalQuery ?iso (parseFilters ?iso (\<lambda>f. []) ?reset) ?reset ''w1'' ?filters
       = Inr (Aggregated [(432000000, 2)])"
    unfolding relationalQuery_def Let_def bounds rows by (simp add: toXY_def)
  have no_column: "\<not> usesEventColumn ?cols ?filters"
    by (simp add: usesEventColumn_def objectKeys_def)
  have columnar: "clickhouseQuery ?iso ?cols (\<lambda>f. []) ?reset ''w1'' ?filters
      = Inr (Aggregated [(432000000, 2)])"
    unfolding clickhouseQuery_def Let_def bounds rows using no_column by (simp add: toXY_def)
  have direct: "case clickhouseDetailed ?iso ?cols (\<lambda>f. []) ?reset ''w1'' ?filters of
        Inr (Detailed q) \<Rightarrow> query_params q ''startDate'' = Some (PDate 3456000000)
      | _ \<Rightarrow> False"
    by (simp add: clickhouseDetailed_def parseFilters_def getWebsite_def findWebsite_def
        maxDate_def newDate_def Let_def)
  show ?thesis
    unfolding Let_def job job_run.simps reset
    using relational columnar direct by simp
qed

text \<open>
  C3. The claim: on both code paths the rollup answers only when the unit is \<open>day\<close> and
  no filter uses an event column; a dimensional filter always gets a detailed query.
  \<open>clickhouseQuery\<close> does so (\<open>clickhouseQuery_rollup_only_day_without_event_column\<close>,
  \<open>clickhouseQuery_event_column_detailed\<close>). \<open>relationalQuery\<close> tests the unit only.
  Whatever the list \<open>EVENT_COLUMNS\<close> is and whichever of its columns \<open>k\<close> the request
  filters on: with a rollup row in the range of a daily request (dates given as the ISO
  texts the code parses), \<open>relationalQuery\<close> returns the rollup row, where
  \<open>clickhouseQuery\<close> on the same request scans \<open>website_event\<close>.
\<close>

theorem relationalQuery_answers_filtered_query_from_rollup:
  "let isoInstant = (\<lambda>s. if s = ''1970-01-04T00:00:00.000Z'' then Some 259200000
                        else if s = ''1970-01-13T00:00:00.000Z'' then Some 1036800000
                        else None);
       db = \<lparr>db_website =
                [\<lparr>website_id = ''w1'', website_name = ''One'', domain = ''one.example'',
                   resetAt = None, deletedAt = None\<rparr>],
              db_session = [], db_websiteEvent = [],
              db_websiteStats =
                [\<lparr>stats_websiteId = ''w1'', stats_startDate = 432000000,
                   stats_endDate = 518399999, stats_period = daily, stats_pageviews = 42,
                   stats_sessions = 7, stats_bounces = 0, stats_totalDuration = 0,
                   stats_uniqueVisitors = 7, stats_desktopViews = 7, stats_mobileViews = 0,
                   stats_tabletViews = 0, stats_urlData = [(''/'', 42)],
                   stats_referrerData = []\<rparr>]\<rparr>;
       filters = \<lparr>filter_startDate = DateString ''1970-01-04T00:00:00.000Z'',
                  filter_endDate = DateString ''1970-01-13T00:00:00.000Z'',
                  filter_timezone = None, filter_unit = Some ''day'', filter_eventType = None,
                  filter_dimensions = [(k, v)]\<rparr>;
       EVENT_COLUMNS = pre @ k # post
   in usesEventColumn EVENT_COLUMNS filters
      \<and> relationalQuery isoInstant prismaParseFilters db ''w1'' filters
          = Inr (Aggregated [(432000000, 42)])
      \<and> (case clickhouseQuery isoInstant EVENT_COLUMNS (\<lambda>f. []) db ''w1'' filters of
            Inr (Detailed q) \<Rightarrow> from_table q = website_event
          | _ \<Rightarrow> False)"
  by (simp add: usesEventColumn_member clickhouseQuery_def relationalQuery_def
      clickhouseDetailed_def parseFilters_def getWebsite_def findWebsite_def parseISO_def
      findManyStats_def toXY_def startOfDay_def endOfDay_def Let_def)

section \<open>Properties of the aggregation job\<close>

lemma createData_ignores_stats [simp]:
  "createData (db\<lparr>db_websiteStats := t\<rparr>) websiteId startDate endDate
     = createData db websiteId startDate endDate"
  by (simp add: createData_def findManySessions_def groupByUrlPath_def
      groupByReferrerDomain_def eventsInRange_def)

lemma updateData_ignores_stats [simp]:
  "updateData (db\<lparr>db_websiteStats := t\<rparr>) websiteId startDate endDate
     = updateData db websiteId startDate endDate"
  by (rule ext)
     (simp add: updateData_def findManySessions_def groupByUrlPath_def
      groupByReferrerDomain_def eventsInRange_def)

lemma updateData_createData:
  "updateData db websiteId startDate endDate (createData db websiteId startDate endDate)
     = createData db websiteId startDate endDate"
  by (simp add: updateData_def createData_def Let_def)

lemma updateData_twice:
  "updateData db websiteId startDate endDate (updateData db websiteId startDate endDate row)
     = updateData db websiteId startDate endDate row"
  by (simp add: updateData_def Let_def)

lemma updateData_key:
  "stats_websiteId (updateData db websiteId startDate endDate row) = stats_websiteId row"
  "stats_startDate (updateData db websiteId startDate endDate row) = stats_startDate row"
  "stats_period (updateData db websiteId startDate endDate row) = stats_period row"
  by (simp_all add: updateData_def Let_def)

lemma createData_key:
  "stats_websiteId (createData db websiteId startDate endDate) = websiteId"
  "stats_startDate (createData db websiteId startDate endDate) = startDate"
  "stats_period (createData db websiteId startDate endDate) = daily"
  by (simp_all add: createData_def Let_def)

lemma upsert_twice:
  assumes c: "matches create"
      and k: "\<And>row. matches (update row) = matches row"
      and u: "\<And>row. update (update row) = update row"
      and uc: "update create = create"
  shows "upsert matches create update (upsert matches create update table)
           = upsert matches create update table"
proof (cases "list_ex matches table")
  case True
  let ?f = "\<lambda>row. if matches row then update row else row"
  have "list_ex matches (map ?f table)"
    using True k by (auto simp: list_ex_iff)
  moreover have "map ?f (map ?f table) = map ?f table"
    using k u by simp
  ultimately show ?thesis
    using True by (simp add: upsert_def)
next
  case False
  then have "map (\<lambda>row. if matches row then update row else row) table = table"
    by (simp add: list_ex_iff map_idI)
  with False c uc show ?thesis
    by (simp add: upsert_def)
qed

text \<open>
  C4. A second run of \<open>aggregateWebsiteStats\<close> for the same website and day, over the
  sessions and events the first run read, leaves the table of rollups as the first run
  left it. The \<open>update\<close> branch of the upsert writes, into whatever row it finds, the
  values that the \<open>create\<close> branch computes for \<open>pageviews\<close>, \<open>sessions\<close>,
  \<open>uniqueVisitors\<close>, the three device counts, \<open>urlData\<close> and \<open>referrerData\<close>: the
  row's former values of these fields do not enter the result.
\<close>

theorem aggregateWebsiteStats_idempotent:
  assumes "\<not> storeFails websiteId Aggregate"
  shows "(\<exists>db'. aggregateWebsiteStats storeFails websiteId startDate endDate db = Inr db'
            \<and> aggregateWebsiteStats storeFails websiteId startDate endDate db' = Inr db')
         \<and> updateData db websiteId startDate endDate row
             = (createData db websiteId startDate endDate)
                 \<lparr>stats_websiteId := stats_websiteId row,
                  stats_startDate := stats_startDate row,
                  stats_endDate := stats_endDate row,
                  stats_period := stats_period row,
                  stats_bounces := stats_bounces row,
                  stats_totalDuration := stats_totalDuration row\<rparr>"
proof
  let ?m = "\<lambda>row. stats_websiteId row = websiteId \<and> stats_startDate row = startDate
                    \<and> stats_period row = daily"
  let ?c = "createData db websiteId startDate endDate"
  let ?u = "updateData db websiteId startDate endDate"
  have "upsert ?m ?c ?u (upsert ?m ?c ?u (db_websiteStats db)) = upsert ?m ?c ?u (db_websiteStats db)"
    by (rule upsert_twice)
       (simp_all add: createData_key updateData_key updateData_twice updateData_createData)
  with assms
  show "\<exists>db'. aggregateWebsiteStats storeFails websiteId startDate endDate db = Inr db'
            \<and> aggregateWebsiteStats storeFails websiteId startDate endDate db' = Inr db'"
    by (simp add: aggregateWebsiteStats_def)
next
  show "updateData db websiteId startDate endDate row
          = (createData db websiteId startDate endDate)
              \<lparr>stats_websiteId := stats_websiteId row,
               stats_startDate := stats_startDate row,
               stats_endDate := stats_endDate row,
               stats_period := stats_period row,
               stats_bounces := stats_bounces row,
               stats_totalDuration := stats_totalDuration row\<rparr>"
    by (cases row) (simp add: updateData_def createData_def Let_def)
qed

theorem aggregateWebsiteStats_idempotent_witness:
  "let db = \<lparr>db_website =
                [\<lparr>website_id = ''w1'', website_name = ''One'', domain = ''one.example'',
                   resetAt = None, deletedAt = None\<rparr>],
              db_session =
                [\<lparr>session_id = ''s1'', session_websiteId = ''w1'', session_createdAt = 1000,
                   device = Some ''Mobile''\<rparr>],
              db_websiteEvent =
                [\<lparr>event_id = ''e1'', event_websiteId = ''w1'', event_sessionId = ''s1'',
                   event_createdAt = 1000, event_urlPath = ''/'',
                   event_referrerDomain = None, event_type = pageView\<rparr>],
              db_websiteStats = []\<rparr>;
       storeFails = (\<lambda>w step. False)
   in \<not> storeFails ''w1'' Aggregate
      \<and> (\<exists>db'. aggregateWebsiteStats storeFails ''w1'' 0 86399999 db = Inr db'
            \<and> aggregateWebsiteStats storeFails ''w1'' 0 86399999 db' = Inr db')"
  using aggregateWebsiteStats_idempotent
    [of "\<lambda>w step. False" "''w1''" 0 86399999
        "\<lparr>db_website =
                [\<lparr>website_id = ''w1'', website_name = ''One'', domain = ''one.example'',
                   resetAt = None, deletedAt = None\<rparr>],
              db_session =
                [\<lparr>session_id = ''s1'', session_websiteId = ''w1'', session_createdAt = 1000,
                   device = Some ''Mobile''\<rparr>],
              db_websiteEvent =
                [\<lparr>event_id = ''e1'', event_websiteId = ''w1'', event_sessionId = ''s1'',
                   event_createdAt = 1000, event_urlPath = ''/'',
                   event_referrerDomain = None, event_type = pageView\<rparr>],
              db_websiteStats = []\<rparr>"]
  by (simp add: Let_def)

lemma upsert_other_rows:
  assumes "\<And>row. P (update row) = P row" and "\<And>row. matches row \<Longrightarrow> \<not> P row"
      and "\<not> P create"
  shows "filter P (upsert matches create update table) = filter P table"
proof -
  have "filter P (map (\<lambda>row. if matches row then update row else row) table) = filter P table"
    using assms(1,2) by (induction table) auto
  with assms(3) show ?thesis
    by (simp add: upsert_def)
qed

lemma aggregateWebsiteStats_other_website:
  assumes "aggregateWebsiteStats storeFails websiteId startDate endDate db = Inr db'"
      and "x \<noteq> websiteId"
  shows "filter (\<lambda>r. stats_websiteId r = x) (db_websiteStats db')
           = filter (\<lambda>r. stats_websiteId r = x) (db_websiteStats db)"
proof -
  have "filter (\<lambda>r. stats_websiteId r = x)
          (upsert (\<lambda>row. stats_websiteId row = websiteId \<and> stats_startDate row = startDate
                        \<and> stats_period row = daily)
             (createData db websiteId startDate endDate)
             (updateData db websiteId startDate endDate) (db_websiteStats db))
        = filter (\<lambda>r. stats_websiteId r = x) (db_websiteStats db)"
    using assms(2) by (intro upsert_other_rows) (auto simp: updateData_key createData_key)
  with assms(1) show ?thesis
    by (auto simp: aggregateWebsiteStats_def split: if_splits)
qed

lemma deleteOldData_stats:
  "deleteOldData storeFails websiteId beforeDate db = Inr db' \<Longrightarrow>
     db_websiteStats db' = db_websiteStats db"
  by (auto simp: deleteOldData_def split: if_splits)

lemma step_outcome:
  "stepsSucceed storeFails w \<Longrightarrow>
     \<exists>db1 db2. aggregateWebsiteStats storeFails (website_id w) s e db = Inr db1
       \<and> deleteOldData storeFails (website_id w) s db1 = Inr db2"
  by (simp add: stepsSucceed_def aggregateWebsiteStats_def deleteOldData_def)

lemma forEachWebsite_outcome:
  "fst (forEachWebsite storeFails clock i websites db processed) = firstFailure storeFails websites
   \<and> snd (snd (forEachWebsite storeFails clock i websites db processed))
       = processed @ map website_name (takeWhile (stepsSucceed storeFails) websites)"
proof (induction websites arbitrary: i db processed)
  case Nil
  show ?case by (simp add: firstFailure_def)
next
  case (Cons w websites)
  show ?case
  proof (cases "stepsSucceed storeFails w")
    case True
    let ?s = "startOfDay (subDays (clock i) RETENTION_DAYS)"
    let ?e = "endOfDay (subDays (clock i) RETENTION_DAYS)"
    from step_outcome[OF True, of ?s ?e db] obtain db1 db2 where
      "aggregateWebsiteStats storeFails (website_id w) ?s ?e db = Inr db1"
      "deleteOldData storeFails (website_id w) ?s db1 = Inr db2"
      by blast
    with True Cons.IH[of "Suc i" db2 "processed @ [website_name w]"] show ?thesis
      by (simp add: Let_def firstFailure_def)
  next
    case False
    then show ?thesis
      by (auto simp: Let_def firstFailure_def stepsSucceed_def aggregateWebsiteStats_def
          deleteOldData_def)
  qed
qed

lemma forEachWebsite_untouched:
  assumes "x \<notin> website_id `
             set (take (Suc (length (takeWhile (stepsSucceed storeFails) websites))) websites)"
  shows "filter (\<lambda>r. stats_websiteId r = x)
           (db_websiteStats (fst (snd (forEachWebsite storeFails clock i websites db processed))))
         = filter (\<lambda>r. stats_websiteId r = x) (db_websiteStats db)"
  using assms
proof (induction websites arbitrary: i db processed)
  case Nil
  show ?case by simp
next
  case (Cons w websites)
  let ?s = "startOfDay (subDays (clock i) RETENTION_DAYS)"
  let ?e = "endOfDay (subDays (clock i) RETENTION_DAYS)"
  from Cons.prems have x: "x \<noteq> website_id w"
    by auto
  show ?case
  proof (cases "stepsSucceed storeFails w")
    case True
    from step_outcome[OF True, of ?s ?e db] obtain db1 db2 where
      st: "aggregateWebsiteStats storeFails (website_id w) ?s ?e db = Inr db1"
          "deleteOldData storeFails (website_id w) ?s db1 = Inr db2"
      by blast
    from True Cons.prems
    have rest: "x \<notin> website_id `
        set (take (Suc (length (takeWhile (stepsSucceed storeFails) websites))) websites)"
      by auto
    have "filter (\<lambda>r. stats_websiteId r = x) (db_websiteStats db2)
            = filter (\<lambda>r. stats_websiteId r = x) (db_websiteStats db)"
      using aggregateWebsiteStats_other_website[OF st(1) x] deleteOldData_stats[OF st(2)]
      by simp
    with st Cons.IH[OF rest, of "Suc i" db2 "processed @ [website_name w]"] show ?thesis
      by (simp add: Let_def)
  next
    case False
    show ?thesis
    proof (cases "aggregateWebsiteStats storeFails (website_id w) ?s ?e db")
      case (Inl err)
      then show ?thesis by (simp add: Let_def)
    next
      case (Inr db1)
      with False have "deleteOldData storeFails (website_id w) ?s db1
          = Inl (StoreError (website_id w) DeleteOld)"
        by (auto simp: stepsSucceed_def aggregateWebsiteStats_def deleteOldData_def
            split: if_splits)
      with Inr aggregateWebsiteStats_other_website[OF Inr x] show ?thesis
        by (simp add: Let_def)
    qed
  qed
qed

text \<open>
  C1, as the code has it. \<open>main\<close> wraps the whole loop in one \<open>try\<close>, logs and rethrows:
  the first website whose step throws ends the batch. The websites before it are
  completed, the error is the one \<open>main\<close> throws (exit status 1, after the
  disconnect), and the rollup rows of every website other than the completed ones and
  the failing one, so of every website that follows the failure in the list, are as they
  were before the run.
\<close>

theorem main_aborts_at_first_failure:
  "completed (main storeFails clock db)
     = map website_name (takeWhile (stepsSucceed storeFails) (activeWebsites db))
   \<and> thrown (main storeFails clock db) = firstFailure storeFails (activeWebsites db)
   \<and> exitCode (main storeFails clock db)
       = (if firstFailure storeFails (activeWebsites db) = None then 0 else 1)
   \<and> disconnected (main storeFails clock db)
   \<and> (\<forall>x. x \<notin> website_id ` set (take
               (Suc (length (takeWhile (stepsSucceed storeFails) (activeWebsites db))))
               (activeWebsites db))
        \<longrightarrow> filter (\<lambda>r. stats_websiteId r = x) (db_websiteStats (store (main storeFails clock db)))
              = filter (\<lambda>r. stats_websiteId r = x) (db_websiteStats db))"
proof -
  obtain err db' processed where
    run: "forEachWebsite storeFails clock 0 (activeWebsites db) db [] = (err, db', processed)"
    by (cases "forEachWebsite storeFails clock 0 (activeWebsites db) db []")
  from run forEachWebsite_outcome[of storeFails clock 0 "activeWebsites db" db "[]"]
  have "err = firstFailure storeFails (activeWebsites db)"
    "processed = map website_name (takeWhile (stepsSucceed storeFails) (activeWebsites db))"
    by simp_all
  moreover from run
    forEachWebsite_untouched[of _ storeFails "activeWebsites db" clock 0 db "[]"]
  have "\<forall>x. x \<notin> website_id ` set (take
               (Suc (length (takeWhile (stepsSucceed storeFails) (activeWebsites db))))
               (activeWebsites db))
        \<longrightarrow> filter (\<lambda>r. stats_websiteId r = x) (db_websiteStats db')
              = filter (\<lambda>r. stats_websiteId r = x) (db_websiteStats db)"
    by simp
  ultimately show ?thesis
    using run by (simp add: main_def activeWebsites_def)
qed

theorem main_aborts_at_first_failure_witness:
  "let db = \<lparr>db_website =
                [\<lparr>website_id = ''a'', website_name = ''A'', domain = ''a.example'',
                   resetAt = None, deletedAt = None\<rparr>,
                 \<lparr>website_id = ''b'', website_name = ''B'', domain = ''b.example'',
                   resetAt = None, deletedAt = None\<rparr>,
                 \<lparr>website_id = ''c'', website_name = ''C'', domain = ''c.example'',
                   resetAt = None, deletedAt = None\<rparr>],
              db_session = [], db_websiteEvent = [], db_websiteStats = []\<rparr>;
       storeFails = (\<lambda>w step. w = ''b'' \<and> step = Aggregate);
       run = main storeFails (\<lambda>i. 2592000000) db
   in ''c'' \<notin> website_id ` set (take
              (Suc (length (takeWhile (stepsSucceed storeFails) (activeWebsites db))))
              (activeWebsites db))
      \<and> filter (\<lambda>r. stats_websiteId r = ''c'') (db_websiteStats (store run)) = []
      \<and> completed run = [''A'']
      \<and> thrown run = Some (StoreError ''b'' Aggregate)"
  using main_aborts_at_first_failure
    [of "\<lambda>w step. w = ''b'' \<and> step = Aggregate" "\<lambda>i. 2592000000"
        "\<lparr>db_website =
                [\<lparr>website_id = ''a'', website_name = ''A'', domain = ''a.example'',
                   resetAt = None, deletedAt = None\<rparr>,
                 \<lparr>website_id = ''b'', website_name = ''B'', domain = ''b.example'',
                   resetAt = None, deletedAt = None\<rparr>,
                 \<lparr>website_id = ''c'', website_name = ''C'', domain = ''c.example'',
                   resetAt = None, deletedAt = None\<rparr>],
              db_session = [], db_websiteEvent = [], db_websiteStats = []\<rparr>"]
  by (simp add: Let_def activeWebsites_def stepsSucceed_def firstFailure_def)

text \<open>
  C1, as the claim has it, fails. Three websites \<open>a\<close>, \<open>b\<close>, \<open>c\<close>; the store throws
  in the aggregation step of \<open>b\<close>. The run completes \<open>A\<close> only, throws the error of
  \<open>b\<close> and exits with status 1: website \<open>c\<close>, which follows \<open>b\<close> in the list, is never
  processed and gets no rollup row.
\<close>

theorem main_one_failure_leaves_rest_unprocessed:
  "main (\<lambda>w step. w = ''b'' \<and> step = Aggregate) (\<lambda>i. 2592000000)
     \<lparr>db_website =
        [\<lparr>website_id = ''a'', website_name = ''A'', domain = ''a.example'',
           resetAt = None, deletedAt = None\<rparr>,
         \<lparr>website_id = ''b'', website_name = ''B'', domain = ''b.example'',
           resetAt = None, deletedAt = None\<rparr>,
         \<lparr>website_id = ''c'', website_name = ''C'', domain = ''c.example'',
           resetAt = None, deletedAt = None\<rparr>],
      db_session = [], db_websiteEvent = [], db_websiteStats = []\<rparr>
   = \<lparr>thrown = Some (StoreError ''b'' Aggregate),
      completed = [''A''],
      store =
        \<lparr>db_website =
           [\<lparr>website_id = ''a'', website_name = ''A'', domain = ''a.example'',
              resetAt = None, deletedAt = None\<rparr>,
            \<lparr>website_id = ''b'', website_name = ''B'', domain = ''b.example'',
              resetAt = None, deletedAt = None\<rparr>,
            \<lparr>website_id = ''c'', website_name = ''C'', domain = ''c.example'',
              resetAt = None, deletedAt = None\<rparr>],
         db_session = [], db_websiteEvent = [],
         db_websiteStats =
           [\<lparr>stats_websiteId = ''a'', stats_startDate = 0, stats_endDate = 86399999,
              stats_period = daily, stats_pageviews = 0, stats_sessions = 0,
              stats_bounces = 0, stats_totalDuration = 0, stats_uniqueVisitors = 0,
              stats_desktopViews = 0, stats_mobileViews = 0, stats_tabletViews = 0,
              stats_urlData = [], stats_referrerData = []\<rparr>]\<rparr>,
      disconnected = True,
      exitCode = 1\<rparr>"
  by (simp add: main_def aggregateWebsiteStats_def deleteOldData_def upsert_def createData_def
      findManySessions_def pageviewsOf_def uniqueVisitorsOf_def deviceCountsOf_def countOr0_def
      groupByUrlPath_def groupByReferrerDomain_def groupByCount_def eventsInRange_def
      urlDataOf_def referrerDataOf_def RETENTION_DAYS_def subDays_def startOfDay_def
      endOfDay_def Let_def)

text \<open>
  The parts of the rollup row that are as described: \<open>uniqueVisitors\<close> is the number
  of distinct session ids among the sessions of the range, and each device count is the
  number of those sessions whose lower-cased device is the bucket's name, so a session
  without a device, classified \<open>unknown\<close>, is in none of the three named buckets.
\<close>

lemma uniqueVisitorsOf_distinct_sessions:
  "uniqueVisitorsOf sessions = int (card (set (map (\<lambda>s. session_id (fst s)) sessions)))"
  unfolding uniqueVisitorsOf_def by (simp only: card_set)

lemma deviceCounts_fold:
  "countOr0
     (fold (\<lambda>session acc.
        let device = deviceOf (fst session)
        in acc(device \<mapsto> (case acc device of None \<Rightarrow> 0 | Some n \<Rightarrow> n) + 1))
       sessions acc0) key
   = countOr0 acc0 key + int (length (filter (\<lambda>s. deviceOf (fst s) = key) sessions))"
  by (induction sessions arbitrary: acc0) (auto simp: countOr0_def Let_def)

lemma deviceCounts_bucket:
  "countOr0 (deviceCountsOf sessions) key
     = int (length (filter (\<lambda>s. deviceOf (fst s) = key) sessions))"
  by (simp add: deviceCountsOf_def deviceCounts_fold) (simp add: countOr0_def)

lemma missing_device_is_unknown:
  "device s = None \<Longrightarrow> deviceOf s = ''unknown''"
  by (simp add: deviceOf_def)

lemma missing_device_in_no_named_bucket:
  assumes "device (fst s) = None"
  shows "countOr0 (deviceCountsOf (s # sessions)) ''desktop''
           = countOr0 (deviceCountsOf sessions) ''desktop''"
    and "countOr0 (deviceCountsOf (s # sessions)) ''mobile''
           = countOr0 (deviceCountsOf sessions) ''mobile''"
    and "countOr0 (deviceCountsOf (s # sessions)) ''tablet''
           = countOr0 (deviceCountsOf sessions) ''tablet''"
  using assms by (simp_all add: deviceCounts_bucket missing_device_is_unknown)

text \<open>
  C7. The claim: \<open>pageviews\<close> of the rollup row is the number of pageview-type events in
  the day's range. The code adds up \<open>session.websiteEvent.length\<close> over the sessions
  created in the range, and so counts every event of such a session, whatever its type.
  One session of the day with one pageview and one custom event gives \<open>pageviews = 2\<close>,
  where the day holds one pageview event. (The other two parts of the claim hold:
  \<open>uniqueVisitorsOf_distinct_sessions\<close>, \<open>missing_device_in_no_named_bucket\<close>.)
\<close>

theorem rollup_pageviews_counts_custom_events:
  "let db = \<lparr>db_website =
                [\<lparr>website_id = ''w1'', website_name = ''One'', domain = ''one.example'',
                   resetAt = None, deletedAt = None\<rparr>],
              db_session =
                [\<lparr>session_id = ''s1'', session_websiteId = ''w1'', session_createdAt = 1000,
                   device = None\<rparr>],
              db_websiteEvent =
                [\<lparr>event_id = ''e1'', event_websiteId = ''w1'', event_sessionId = ''s1'',
                   event_createdAt = 1000, event_urlPath = ''/'',
                   event_referrerDomain = None, event_type = pageView\<rparr>,
                 \<lparr>event_id = ''e2'', event_websiteId = ''w1'', event_sessionId = ''s1'',
                   event_createdAt = 2000, event_urlPath = ''/'',
                   event_referrerDomain = None, event_type = customEvent\<rparr>],
              db_websiteStats = []\<rparr>
   in length (filter (\<lambda>e. event_type e = pageView) (eventsInRange db ''w1'' 0 86399999)) = 1
      \<and> aggregateWebsiteStats (\<lambda>w step. False) ''w1'' 0 86399999 db
          = Inr (db\<lparr>db_websiteStats :=
                   [\<lparr>stats_websiteId = ''w1'', stats_startDate = 0, stats_endDate = 86399999,
                      stats_period = daily, stats_pageviews = 2, stats_sessions = 1,
                      stats_bounces = 0, stats_totalDuration = 0, stats_uniqueVisitors = 1,
                      stats_desktopViews = 0, stats_mobileViews = 0, stats_tabletViews = 0,
                      stats_urlData = [(''/'', 2)], stats_referrerData = []\<rparr>]\<rparr>)"
  by (simp add: aggregateWebsiteStats_def upsert_def createData_def
      findManySessions_def pageviewsOf_def uniqueVisitorsOf_def deviceCountsOf_def countOr0_def
      deviceOf_def groupByUrlPath_def groupByReferrerDomain_def groupByCount_def
      eventsInRange_def urlDataOf_def referrerDataOf_def Let_def)

section \<open>Properties of the collection endpoint\<close>

lemma removeTrailingSlash_nonempty:
  "s \<noteq> [] \<Longrightarrow> removeTrailingSlash s \<noteq> []"
  by (cases s) (auto simp: removeTrailingSlash_def)

lemma removeTrailingSlash_root:
  "removeTrailingSlash ''/'' = ''/''"
  by (simp add: removeTrailingSlash_def)

lemma eventArgs_urlPath:
  assumes "eventArgs deps session payload = Inr args"
  shows "ev_urlPath args \<noteq> []"
    and "fst (splitQuery (safeDecodeURI deps (payload_url payload))) = None
         \<or> fst (splitQuery (safeDecodeURI deps (payload_url payload))) = Some []
         \<Longrightarrow> ev_urlPath args = ''/''"
proof -
  obtain urlPath0 urlQuery0 where
    sq: "splitQuery (safeDecodeURI deps (payload_url payload)) = (urlPath0, urlQuery0)"
    by (cases "splitQuery (safeDecodeURI deps (payload_url payload))")
  define urlPath1 where
    "urlPath1 = (case urlPath0 of None \<Rightarrow> ''/'' | Some p \<Rightarrow> if p = [] then ''/'' else p)"
  have ne: "urlPath1 \<noteq> []"
    by (simp add: urlPath1_def split: option.splits)
  from assms sq have path: "ev_urlPath args
      = (if REMOVE_TRAILING_SLASH deps then removeTrailingSlash urlPath1 else urlPath1)"
    by (auto simp: eventArgs_def Let_def urlPath1_def split: prod.splits option.splits if_splits)
  with ne show "ev_urlPath args \<noteq> []"
    by (simp add: removeTrailingSlash_nonempty)
  assume "fst (splitQuery (safeDecodeURI deps (payload_url payload))) = None
         \<or> fst (splitQuery (safeDecodeURI deps (payload_url payload))) = Some []"
  with sq have "urlPath1 = ''/''"
    by (auto simp: urlPath1_def)
  with path show "ev_urlPath args = ''/''"
    by (simp add: removeTrailingSlash_root)
qed

text \<open>
  C10. Whenever the handler answers an event-type request with success, the call it
  made is \<open>saveEvent\<close>, and the \<open>urlPath\<close> it passed is not empty; when the split of the
  decoded URL gives no path or an empty one, the \<open>urlPath\<close> passed is \<open>/\<close>
  (\<open>REMOVE_TRAILING_SLASH\<close> leaves \<open>/\<close> alone and never empties a path).
\<close>

theorem saveEvent_urlPath_nonempty:
  assumes "collect deps nowMs session0 event payload = send session call"
  shows "\<exists>args. call = saveEvent args \<and> ev_urlPath args \<noteq> []
           \<and> (fst (splitQuery (safeDecodeURI deps (payload_url payload))) = None
                \<or> fst (splitQuery (safeDecodeURI deps (payload_url payload))) = Some []
              \<longrightarrow> ev_urlPath args = ''/'')"
proof -
  from assms obtain args where
    "eventArgs deps (expireVisit deps nowMs session0) payload = Inr args" "call = saveEvent args"
    by (auto simp: collect_def Let_def split: if_splits sum.splits)
  with eventArgs_urlPath[of deps "expireVisit deps nowMs session0" payload args]
  show ?thesis by blast
qed

theorem saveEvent_urlPath_nonempty_witness:
  "let deps = \<lparr>uuid = (\<lambda>sid salt. sid @ ''-'' @ salt), visitSalt = (\<lambda>t. ''salt''),
                safeDecodeURI = (\<lambda>s. s), newURL = (\<lambda>s. None),
                REMOVE_TRAILING_SLASH = True, storeThrows = False\<rparr>;
       payload = \<lparr>payload_website = ''w1'', payload_data = None, payload_name = None,
                  payload_referrer = None, payload_tag = None, payload_title = None,
                  payload_url = Some ''?q=1''\<rparr>;
       session0 = \<lparr>session_key = ''s'', session_website = ''w1'', visitId = ''v0'',
                   iat = None\<rparr>;
       session = \<lparr>session_key = ''s'', session_website = ''w1'', visitId = ''v0'',
                  iat = Some 5\<rparr>;
       args = \<lparr>ev_urlPath = ''/'', ev_urlQuery = ''q=1'', ev_referrerPath = None,
               ev_referrerQuery = None, ev_referrerDomain = [], ev_pageTitle = None,
               ev_eventName = None, ev_eventData = None, ev_session = session,
               ev_sessionId = ''s'', ev_tag = None\<rparr>
   in collect deps 5000 session0 event payload = send session (saveEvent args)
      \<and> fst (splitQuery (safeDecodeURI deps (payload_url payload))) = Some []
      \<and> ev_urlPath args = ''/''"
  using saveEvent_urlPath_nonempty
    [of "\<lparr>uuid = (\<lambda>sid salt. sid @ ''-'' @ salt), visitSalt = (\<lambda>t. ''salt''),
           safeDecodeURI = (\<lambda>s. s), newURL = (\<lambda>s. None),
           REMOVE_TRAILING_SLASH = True, storeThrows = False\<rparr>"
        5000
        "\<lparr>session_key = ''s'', session_website = ''w1'', visitId = ''v0'', iat = None\<rparr>"
        "\<lparr>payload_website = ''w1'', payload_data = None, payload_name = None,
          payload_referrer = None, payload_tag = None, payload_title = None,
          payload_url = Some ''?q=1''\<rparr>"
        "\<lparr>session_key = ''s'', session_website = ''w1'', visitId = ''v0'', iat = Some 5\<rparr>"
        "saveEvent \<lparr>ev_urlPath = ''/'', ev_urlQuery = ''q=1'', ev_referrerPath = None,
               ev_referrerQuery = None, ev_referrerDomain = [], ev_pageTitle = None,
               ev_eventName = None, ev_eventData = None,
               ev_session = \<lparr>session_key = ''s'', session_website = ''w1'',
                              visitId = ''v0'', iat = Some 5\<rparr>,
               ev_sessionId = ''s'', ev_tag = None\<rparr>"]
  by (simp add: collect_def eventArgs_def expireVisit_def splitQuery_def hasScheme_def
      isWordChar_def removeTrailingSlash_def Let_def)




end
